theory Spec2Isabelle
  imports Complex_Main "HOL-Library.Sublist"
begin

section \<open>Values exchanged with the remote host\<close>

text \<open>
  A response body that \<^verbatim>\<open>response.json()\<close> delivers is a JSON value. Numbers are never
  inspected by the adapter; they are carried as rationals. An object is the list of its own
  properties, looked up with \<open>map_of\<close>.
\<close>

datatype json =
    JNull
  | JBool bool
  | JNumber rat
  | JString string
  | JArray "json list"
  | JObject "(string \<times> json) list"

text \<open>
  What a JavaScript expression of the adapter can evaluate to: \<^verbatim>\<open>undefined\<close>, a value that came
  out of the response, a built-in method found on a prototype (named by its property name),
  or an array the adapter built itself with \<^verbatim>\<open>map\<close> or an array literal (its elements may be
  \<^verbatim>\<open>undefined\<close>, which no JSON array holds).
\<close>

datatype js_value =
    JUndefined
  | JVal json
  | JBuiltin string
  | JList "js_value list"

text \<open>
  The HTTP response as the adapter reads it: \<^verbatim>\<open>response.status\<close>,
  \<^verbatim>\<open>response.headers.get('Content-Type')\<close> (\<open>None\<close> is \<^verbatim>\<open>null\<close>), and what
  \<^verbatim>\<open>response.text()\<close> and \<^verbatim>\<open>response.json()\<close> settle to (\<open>None\<close>: the promise rejects, for
  \<^verbatim>\<open>json()\<close> because the body is not valid JSON).
\<close>

record response =
  status :: nat
  content_type :: "string option"
  body_text :: "string option"
  body_json :: "json option"

text \<open>\<^verbatim>\<open>response.ok\<close>: the status is in the range 200 to 299.\<close>

definition ok :: "response \<Rightarrow> bool" where
  "ok r = (200 \<le> status r \<and> status r \<le> 299)"

text \<open>
  What a \<^verbatim>\<open>throw\<close> or a rejected promise carries: the response itself (\<^verbatim>\<open>throw response\<close> in
  \<^verbatim>\<open>fetchJson\<close>), or an error object of the platform, which has no \<^verbatim>\<open>status\<close> property.
\<close>

datatype error_kind = TypeError | SyntaxError | InvalidCharacterError

datatype thrown = Thrown_Response response | Thrown_Error error_kind

text \<open>\<^verbatim>\<open>e.status\<close> in a \<^verbatim>\<open>catch (e)\<close>; \<open>None\<close> is \<^verbatim>\<open>undefined\<close>.\<close>

fun thrown_status :: "thrown \<Rightarrow> nat option" where
  "thrown_status (Thrown_Response r) = Some (status r)"
| "thrown_status (Thrown_Error k) = None"

record request =
  rq_url :: string
  rq_method :: string
  rq_headers :: "(string \<times> string) list"

text \<open>
  The network: how the remote side answers a request (\<open>None\<close>: the transport fails and
  \<^verbatim>\<open>fetch\<close> rejects with a \<^verbatim>\<open>TypeError\<close>), and the requests issued so far, oldest first.
\<close>

record world =
  respond :: "request \<Rightarrow> response option"
  sent :: "request list"

text \<open>
  \<^verbatim>\<open>fetch(url, { headers })\<close>: no method is given, so the request is a GET.
\<close>

definition fetch :: "string \<Rightarrow> (string \<times> string) list \<Rightarrow> world \<Rightarrow> (thrown + response) \<times> world" where
  "fetch u hs w =
     (let rq = \<lparr>rq_url = u, rq_method = ''GET'', rq_headers = hs\<rparr> in
      (case respond w rq of
         None \<Rightarrow> Inl (Thrown_Error TypeError)
       | Some r \<Rightarrow> Inr r,
       w\<lparr>sent := sent w @ [rq]\<rparr>))"

section \<open>Property reads on JavaScript values\<close>

text \<open>
  \<^verbatim>\<open>v.k\<close> for a value \<open>v\<close> of the response. Reading a property of \<^verbatim>\<open>null\<close> throws a
  \<^verbatim>\<open>TypeError\<close>. An object gives its own property or \<^verbatim>\<open>undefined\<close>. Of the inherited
  properties only those whose names the adapter reads are modelled: an array inherits
  \<^verbatim>\<open>values\<close> and \<^verbatim>\<open>map\<close> from \<^verbatim>\<open>Array.prototype\<close>; none of \<^verbatim>\<open>slug\<close>, \<^verbatim>\<open>values\<close>,
  \<^verbatim>\<open>name\<close>, \<^verbatim>\<open>path\<close>, \<^verbatim>\<open>language\<close>, \<^verbatim>\<open>map\<close> is inherited by an object, a string, a number or a
  boolean.
\<close>

fun get_prop :: "json \<Rightarrow> string \<Rightarrow> thrown + js_value" where
  "get_prop JNull k = Inl (Thrown_Error TypeError)"
| "get_prop (JObject kvs) k =
     Inr (case map_of kvs k of None \<Rightarrow> JUndefined | Some v \<Rightarrow> JVal v)"
| "get_prop (JArray xs) k =
     Inr (if k = ''values'' \<or> k = ''map'' then JBuiltin k else JUndefined)"
| "get_prop (JBool b) k = Inr JUndefined"
| "get_prop (JNumber n) k = Inr JUndefined"
| "get_prop (JString s) k = Inr JUndefined"

text \<open>
  The same read on any value of an expression: \<^verbatim>\<open>undefined.k\<close> throws; a function has a
  \<^verbatim>\<open>name\<close>; an array built by the adapter behaves as every array.
\<close>

fun js_get :: "js_value \<Rightarrow> string \<Rightarrow> thrown + js_value" where
  "js_get JUndefined k = Inl (Thrown_Error TypeError)"
| "js_get (JVal j) k = get_prop j k"
| "js_get (JBuiltin f) k = Inr (if k = ''name'' then JVal (JString f) else JUndefined)"
| "js_get (JList xs) k =
     Inr (if k = ''values'' \<or> k = ''map'' then JBuiltin k else JUndefined)"

text \<open>\<^verbatim>\<open>b.k\<close> where the read does not throw, that is for every \<open>b\<close> but \<^verbatim>\<open>null\<close>.\<close>

definition read_prop :: "string \<Rightarrow> json \<Rightarrow> js_value" where
  "read_prop k b = (case get_prop b k of Inl e \<Rightarrow> JUndefined | Inr v \<Rightarrow> v)"

text \<open>A callback applied to the elements in order; the first throw ends the loop.\<close>

fun map_thrown :: "('a \<Rightarrow> thrown + 'b) \<Rightarrow> 'a list \<Rightarrow> thrown + 'b list" where
  "map_thrown f [] = Inr []"
| "map_thrown f (x # xs) =
     (case f x of
        Inl e \<Rightarrow> Inl e
      | Inr y \<Rightarrow> (case map_thrown f xs of Inl e \<Rightarrow> Inl e | Inr ys \<Rightarrow> Inr (y # ys)))"

text \<open>
  \<^verbatim>\<open>recv.map(cb)\<close>: the property \<^verbatim>\<open>map\<close> is read from the receiver (a throw on
  \<^verbatim>\<open>undefined\<close> and \<^verbatim>\<open>null\<close>), and called. Only an array has a callable \<^verbatim>\<open>map\<close>; calling
  anything else is a \<^verbatim>\<open>TypeError\<close>.
\<close>

definition call_map :: "js_value \<Rightarrow> (js_value \<Rightarrow> thrown + js_value) \<Rightarrow> thrown + js_value list" where
  "call_map recv cb =
     (case js_get recv ''map'' of
        Inl e \<Rightarrow> Inl e
      | Inr fn \<Rightarrow>
          (case recv of
             JVal (JArray xs) \<Rightarrow>
               if fn = JBuiltin ''map'' then map_thrown cb (map JVal xs)
               else Inl (Thrown_Error TypeError)
           | JList ys \<Rightarrow>
               if fn = JBuiltin ''map'' then map_thrown cb ys
               else Inl (Thrown_Error TypeError)
           | _ \<Rightarrow> Inl (Thrown_Error TypeError)))"

section \<open>The base64 codec\<close>

text \<open>
  \<^verbatim>\<open>Base64.encode\<close> and \<^verbatim>\<open>Base64.decode\<close> come from the js-base64 package, a dependency
  of the repository. A JavaScript string is modelled by the bytes of its UTF-8 encoding.
  \<^verbatim>\<open>Base64.encode\<close> turns the string into these bytes and encodes them as RFC 4648 says,
  with padding. \<^verbatim>\<open>Base64.decode\<close> maps the URL-safe characters \<^verbatim>\<open>-\<close> and \<^verbatim>\<open>_\<close> to \<^verbatim>\<open>+\<close> and
  \<^verbatim>\<open>/\<close>, drops every character outside the alphabet (the padding too), hands the rest to the
  platform's \<^verbatim>\<open>atob\<close>, which rejects a single left-over character, and reads the bytes it
  gets as UTF-8 text.
\<close>

definition b64chars :: string where
  "b64chars = ''ABCDEFGHIJKLMNOPQRSTUVWXYZabcdefghijklmnopqrstuvwxyz0123456789+/''"

definition b64_char :: "nat \<Rightarrow> char" where
  "b64_char n = b64chars ! (n mod 64)"

fun index_of :: "'a \<Rightarrow> 'a list \<Rightarrow> nat" where
  "index_of x [] = 0"
| "index_of x (y # ys) = (if x = y then 0 else Suc (index_of x ys))"

definition b64_index :: "char \<Rightarrow> nat" where
  "b64_index c = index_of c b64chars"

fun btoa :: "nat list \<Rightarrow> string" where
  "btoa [] = []"
| "btoa [a] = [b64_char (a div 4), b64_char ((a mod 4) * 16), CHR ''='', CHR ''='']"
| "btoa [a, b] =
     [b64_char (a div 4), b64_char ((a mod 4) * 16 + b div 16),
      b64_char ((b mod 16) * 4), CHR ''='']"
| "btoa (a # b # c # bs) =
     [b64_char (a div 4), b64_char ((a mod 4) * 16 + b div 16),
      b64_char ((b mod 16) * 4 + c div 64), b64_char (c mod 64)] @ btoa bs"

definition Base64_encode :: "string \<Rightarrow> string" where
  "Base64_encode s = btoa (map of_char s)"

definition tidyB64 :: "string \<Rightarrow> string" where
  "tidyB64 s =
     filter (\<lambda>c. c \<in> set b64chars)
       (map (\<lambda>c. if c = CHR ''-'' then CHR ''+'' else if c = CHR ''_'' then CHR ''/'' else c) s)"

fun atob :: "nat list \<Rightarrow> thrown + nat list" where
  "atob [] = Inr []"
| "atob [a] = Inl (Thrown_Error InvalidCharacterError)"
| "atob [a, b] = Inr [a * 4 + b div 16]"
| "atob [a, b, c] = Inr [a * 4 + b div 16, (b mod 16) * 16 + c div 4]"
| "atob (a # b # c # d # ds) =
     (case atob ds of
        Inl e \<Rightarrow> Inl e
      | Inr bs \<Rightarrow> Inr ([a * 4 + b div 16, (b mod 16) * 16 + c div 4, (c mod 4) * 64 + d] @ bs))"

text \<open>The bytes that the characters of a stored value stand for.\<close>

definition decoded_bytes :: "string \<Rightarrow> thrown + nat list" where
  "decoded_bytes s = atob (map b64_index (tidyB64 s))"

text \<open>
  Well-formed UTF-8: one byte below 128, or a lead byte with its continuation bytes, without
  overlong forms, surrogates and code points beyond U+10FFFF.
\<close>

definition continuation :: "nat \<Rightarrow> bool" where
  "continuation b = (128 \<le> b \<and> b \<le> 191)"

fun utf8 :: "nat list \<Rightarrow> bool" where
  "utf8 [] = True"
| "utf8 (a # bs) =
     (if a < 128 then utf8 bs
      else if 194 \<le> a \<and> a \<le> 223
      then (case bs of
              b # r \<Rightarrow> continuation b \<and> utf8 r
            | _ \<Rightarrow> False)
      else if 224 \<le> a \<and> a \<le> 239
      then (case bs of
              b # c # r \<Rightarrow>
                (if a = 224 then 160 \<le> b \<and> b \<le> 191
                 else if a = 237 then 128 \<le> b \<and> b \<le> 159
                 else continuation b) \<and>
                continuation c \<and> utf8 r
            | _ \<Rightarrow> False)
      else if 240 \<le> a \<and> a \<le> 244
      then (case bs of
              b # c # d # r \<Rightarrow>
                (if a = 240 then 144 \<le> b \<and> b \<le> 191
                 else if a = 244 then 128 \<le> b \<and> b \<le> 143
                 else continuation b) \<and>
                continuation c \<and> continuation d \<and> utf8 r
            | _ \<Rightarrow> False)
      else False)"

text \<open>
  The bytes on which every version of the package reads the same text, the one they encode:
  well-formed UTF-8 that does not start with a byte-order mark.
\<close>

definition plain_utf8 :: "nat list \<Rightarrow> bool" where
  "plain_utf8 bs = (utf8 bs \<and> take 3 bs \<noteq> [239, 187, 191])"

text \<open>
  What the package makes of other bytes depends on its version and on the platform: the 2.x
  decoder reads a stray byte as a Latin-1 character, \<^verbatim>\<open>TextDecoder\<close>, which 3.x uses,
  substitutes U+FFFD and drops a leading byte-order mark. The model fixes no answer
  there: \<open>malformed_text\<close> is a function of the bytes of which nothing is known, and no
  statement below is about its values.
\<close>

definition malformed_text :: "nat list \<Rightarrow> string" where
  "malformed_text = undefined"

definition utf8_text :: "nat list \<Rightarrow> string" where
  "utf8_text bs = (if plain_utf8 bs then map char_of bs else malformed_text bs)"

definition Base64_decode :: "string \<Rightarrow> thrown + string" where
  "Base64_decode s =
     (case decoded_bytes s of
        Inl e \<Rightarrow> Inl e
      | Inr bs \<Rightarrow> Inr (utf8_text bs))"

section \<open>The source descriptor and the repository metadata\<close>

text \<open>
  Modelled from the spec: the declarations of \<^verbatim>\<open>../types\<close> (\<^verbatim>\<open>GitSource\<close>, \<^verbatim>\<open>SecretType\<close>,
  \<^verbatim>\<open>RepoMetadata\<close>, \<^verbatim>\<open>RepoStatus\<close> and the three list results) are not among the sources.
  The spec gives a source descriptor a repository URL, an optional ref, an optional context
  directory, optional paths to a Dockerfile and a Devfile, and an authentication descriptor
  (a kind, and for basic auth an encoded username and password); the adapter tells
  \<^verbatim>\<open>SecretType.BASIC_AUTH\<close> from every other kind. An optional field that is absent is
  \<open>None\<close> (\<^verbatim>\<open>undefined\<close>). The fields \<open>gs_contextDir\<close>, \<open>gs_devfilePath\<close> and
  \<open>gs_dockerfilePath\<close> are \<^verbatim>\<open>contextDir\<close>, \<^verbatim>\<open>devfilePath\<close> and \<^verbatim>\<open>dockerfilePath\<close> of the
  source descriptor.
\<close>

datatype SecretType = BASIC_AUTH | Other_SecretType nat

record secret_content =
  username :: string
  password :: string

record GitSource =
  url :: string
  ref :: "string option"
  gs_contextDir :: "string option"
  gs_devfilePath :: "string option"
  gs_dockerfilePath :: "string option"
  secretType :: "SecretType option"
  secretContent :: "secret_content option"

record RepoMetadata =
  repoName :: string
  owner :: string
  host :: string
  defaultBranch :: string
  contextDir :: string
  devfilePath :: "string option"
  dockerfilePath :: "string option"

datatype RepoStatus =
    Reachable
  | Unreachable
  | RateLimitExceeded
  | InvalidGitTypeSelected
  | PrivateRepo
  | ResourceNotFound

text \<open>
  What \<^verbatim>\<open>ParseBitbucketUrl\<close> (the parse-bitbucket-url package) returns, as far as the adapter
  reads it. The parser itself is a parameter of the model.
\<close>

record parsed_url =
  parsed_name :: string
  parsed_owner :: string
  parsed_host :: string

text \<open>\<^verbatim>\<open>s.replace(/\/$/, '')\<close> and \<^verbatim>\<open>s.replace(/^\//, '')\<close>.\<close>

definition strip_trailing_slash :: "string \<Rightarrow> string" where
  "strip_trailing_slash s = (if s \<noteq> [] \<and> last s = CHR ''/'' then butlast s else s)"

fun strip_leading_slash :: "string \<Rightarrow> string" where
  "strip_leading_slash [] = []"
| "strip_leading_slash (c # cs) = (if c = CHR ''/'' then cs else c # cs)"

text \<open>An optional string inside a template literal: \<^verbatim>\<open>undefined\<close> prints as its name.\<close>

fun template :: "string option \<Rightarrow> string" where
  "template None = ''undefined''"
| "template (Some s) = s"

definition getRepoMetadata :: "(string \<Rightarrow> parsed_url) \<Rightarrow> GitSource \<Rightarrow> RepoMetadata" where
  "getRepoMetadata ParseBitbucketUrl g =
     (let p = ParseBitbucketUrl (url g) in
      \<lparr>repoName = parsed_name p,
       owner = parsed_owner p,
       host = parsed_host p,
       defaultBranch = (case ref g of None \<Rightarrow> ''HEAD'' | Some r \<Rightarrow> if r = [] then ''HEAD'' else r),
       contextDir = (case gs_contextDir g of None \<Rightarrow> [] | Some d \<Rightarrow> strip_trailing_slash d),
       devfilePath = gs_devfilePath g,
       dockerfilePath = gs_dockerfilePath g\<rparr>)"

section \<open>The adapter\<close>

record BitbucketService =
  gitsource :: GitSource
  metadata :: RepoMetadata
  baseURL :: string
  isServer :: bool

text \<open>
  The constructor: the base class keeps the source descriptor, the field initialisers set
  the SaaS base path and \<^verbatim>\<open>isServer = false\<close>, and the body switches both when the host is
  not \<^verbatim>\<open>bitbucket.org\<close>.
\<close>

definition new_BitbucketService :: "(string \<Rightarrow> parsed_url) \<Rightarrow> GitSource \<Rightarrow> BitbucketService" where
  "new_BitbucketService ParseBitbucketUrl g =
     (let this = \<lparr>gitsource = g, metadata = getRepoMetadata ParseBitbucketUrl g,
                  baseURL = ''https://api.bitbucket.org/2.0'', isServer = False\<rparr>
      in if host (metadata this) \<noteq> ''bitbucket.org''
         then this\<lparr>baseURL := ''https://'' @ host (metadata this) @ ''/rest/api/1.0'',
                   isServer := True\<rparr>
         else this)"

text \<open>
  \<^verbatim>\<open>getAuthProvider\<close>: \<open>Inr None\<close> is \<^verbatim>\<open>null\<close>. Destructuring an absent
  \<^verbatim>\<open>secretContent\<close> throws.
\<close>

definition getAuthProvider :: "BitbucketService \<Rightarrow> thrown + (string \<times> string) list option" where
  "getAuthProvider this =
     (case secretType (gitsource this) of
        Some BASIC_AUTH \<Rightarrow>
          (case secretContent (gitsource this) of
             None \<Rightarrow> Inl (Thrown_Error TypeError)
           | Some sc \<Rightarrow>
               (case Base64_decode (username sc) of
                  Inl e \<Rightarrow> Inl e
                | Inr u \<Rightarrow>
                    (case Base64_decode (password sc) of
                       Inl e \<Rightarrow> Inl e
                     | Inr p \<Rightarrow>
                         Inr (Some [(''Authorization'',
                                     ''Basic '' @ Base64_encode (u @ '':'' @ p))]))))
      | _ \<Rightarrow> Inr None)"

text \<open>
  \<^verbatim>\<open>fetchJson\<close>. The headers are \<^verbatim>\<open>{ Accept: 'application/json', ...authHeaders }\<close>;
  spreading \<^verbatim>\<open>null\<close> adds nothing.
\<close>

definition fetchJson :: "BitbucketService \<Rightarrow> string \<Rightarrow> world \<Rightarrow> (thrown + json) \<times> world" where
  "fetchJson this u w =
     (case getAuthProvider this of
        Inl e \<Rightarrow> (Inl e, w)
      | Inr authHeaders \<Rightarrow>
          (case fetch u ((''Accept'', ''application/json'') #
                         (case authHeaders of None \<Rightarrow> [] | Some hs \<Rightarrow> hs)) w of
             (Inl e, w') \<Rightarrow> (Inl e, w')
           | (Inr response, w') \<Rightarrow>
               (if \<not> ok response then Inl (Thrown_Response response)
                else if content_type response = Some ''text/plain''
                then (case body_text response of
                        None \<Rightarrow> Inl (Thrown_Error TypeError)
                      | Some s \<Rightarrow> Inr (JString s))
                else (case body_json response of
                        None \<Rightarrow> Inl (Thrown_Error SyntaxError)
                      | Some j \<Rightarrow> Inr j),
                w')))"

section \<open>Request URLs\<close>

text \<open>
  The URL of the repository resource, built by the same expression in \<^verbatim>\<open>isRepoReachable\<close>
  and \<^verbatim>\<open>getRepoLanguageList\<close>.
\<close>

definition repoURL :: "BitbucketService \<Rightarrow> string" where
  "repoURL this =
     (if isServer this
      then baseURL this @ ''/projects/'' @ owner (metadata this) @ ''/repos/'' @
           repoName (metadata this)
      else baseURL this @ ''/repositories/'' @ owner (metadata this) @ ''/'' @
           repoName (metadata this))"

text \<open>The URL built in \<^verbatim>\<open>getRepoBranchList\<close>.\<close>

definition branchesURL :: "BitbucketService \<Rightarrow> string" where
  "branchesURL this =
     (if isServer this
      then baseURL this @ ''/projects/'' @ owner (metadata this) @ ''/repos/'' @
           repoName (metadata this) @ ''/branches''
      else baseURL this @ ''/repositories/'' @ owner (metadata this) @ ''/'' @
           repoName (metadata this) @ ''/refs/branches'')"

text \<open>A string that may be absent, as a condition: absent and empty are falsy.\<close>

fun truthy :: "string option \<Rightarrow> bool" where
  "truthy None = False"
| "truthy (Some s) = (s \<noteq> [])"

text \<open>\<^verbatim>\<open>isServerURL(isServer, specificPath?)\<close>; the flag is the parameter \<open>server\<close>.\<close>

definition isServerURL :: "BitbucketService \<Rightarrow> bool \<Rightarrow> string option \<Rightarrow> string" where
  "isServerURL this server specificPath =
     (if truthy specificPath
      then (if server
            then baseURL this @ ''/projects/'' @ owner (metadata this) @ ''/repos/'' @
                 repoName (metadata this) @ ''/files/'' @ contextDir (metadata this) @ ''/'' @
                 template specificPath @ ''?limit=50&at='' @ defaultBranch (metadata this)
            else baseURL this @ ''/repositories/'' @ owner (metadata this) @ ''/'' @
                 repoName (metadata this) @ ''/src/'' @ defaultBranch (metadata this) @ ''/'' @
                 contextDir (metadata this) @ ''/'' @ template specificPath @ ''?pagelen=50'')
      else (if server
            then baseURL this @ ''/projects/'' @ owner (metadata this) @ ''/repos/'' @
                 repoName (metadata this) @ ''/files/'' @ contextDir (metadata this) @
                 ''?limit=50&at='' @ defaultBranch (metadata this)
            else baseURL this @ ''/repositories/'' @ owner (metadata this) @ ''/'' @
                 repoName (metadata this) @ ''/src/'' @ defaultBranch (metadata this) @ ''/'' @
                 contextDir (metadata this) @ ''?pagelen=50''))"

text \<open>
  The URL of a file's raw content, built by the same expression in \<^verbatim>\<open>isFilePresent\<close> and
  \<^verbatim>\<open>getFileContent\<close> from the path without its leading slash.
\<close>

definition rawURL :: "BitbucketService \<Rightarrow> string \<Rightarrow> string" where
  "rawURL this filePath =
     (if isServer this
      then baseURL this @ ''/projects/'' @ owner (metadata this) @ ''/repos/'' @
           repoName (metadata this) @ ''/raw/'' @ filePath @ ''?at='' @
           defaultBranch (metadata this)
      else baseURL this @ ''/repositories/'' @ owner (metadata this) @ ''/'' @
           repoName (metadata this) @ ''/src/'' @ defaultBranch (metadata this) @ ''/'' @
           filePath)"

section \<open>The public operations\<close>

text \<open>
  Each operation is an \<^verbatim>\<open>async\<close> function: its promise resolves (\<open>Inr\<close>) or rejects
  (\<open>Inl\<close>). A \<^verbatim>\<open>try\<close> block is the \<open>thrown + 'a\<close> value of its body, and the \<^verbatim>\<open>catch\<close> the
  case on it.
\<close>

text \<open>
  \<^verbatim>\<open>isRepoReachable\<close>: the \<^verbatim>\<open>try\<close> block returns \<^verbatim>\<open>Reachable\<close> (\<open>Inr True\<close>) or falls through
  to the \<^verbatim>\<open>return RepoStatus.Unreachable\<close> after it (\<open>Inr False\<close>).
\<close>

definition isRepoReachable :: "BitbucketService \<Rightarrow> world \<Rightarrow> (thrown + RepoStatus) \<times> world" where
  "isRepoReachable this w =
     (case fetchJson this (repoURL this) w of
        (r, w') \<Rightarrow>
          (case (case r of
                   Inl e \<Rightarrow> Inl e
                 | Inr data \<Rightarrow>
                     (case get_prop data ''slug'' of
                        Inl e \<Rightarrow> Inl e
                      | Inr slug \<Rightarrow> Inr (slug = JVal (JString (repoName (metadata this)))))) of
             Inr matching \<Rightarrow> Inr (if matching then Reachable else Unreachable)
           | Inl e \<Rightarrow>
               Inr (if thrown_status e = Some 429 then RateLimitExceeded
                    else if thrown_status e = Some 403 then PrivateRepo
                    else if thrown_status e = Some 404 then ResourceNotFound
                    else InvalidGitTypeSelected),
           w'))"

text \<open>\<^verbatim>\<open>getRepoBranchList\<close>; the result is the \<^verbatim>\<open>branches\<close> array.\<close>

definition getRepoBranchList :: "BitbucketService \<Rightarrow> world \<Rightarrow> (thrown + js_value list) \<times> world" where
  "getRepoBranchList this w =
     (case fetchJson this (branchesURL this) w of
        (r, w') \<Rightarrow>
          (case (case r of
                   Inl e \<Rightarrow> Inl e
                 | Inr data \<Rightarrow>
                     (case get_prop data ''values'' of
                        Inl e \<Rightarrow> Inl e
                      | Inr vs \<Rightarrow> call_map vs (\<lambda>b. js_get b ''name''))) of
             Inr list \<Rightarrow> Inr list
           | Inl e \<Rightarrow> Inr [],
           w'))"

text \<open>\<^verbatim>\<open>v == null\<close>, the test of the optional chain \<^verbatim>\<open>v?.map\<close>.\<close>

definition nullish :: "js_value \<Rightarrow> bool" where
  "nullish v = (v = JUndefined \<or> v = JVal JNull)"

text \<open>
  \<^verbatim>\<open>getRepoFileList\<close>; the parameter is \<^verbatim>\<open>params?.specificPath\<close> and the result the value of
  \<^verbatim>\<open>files\<close>. The conditional binds weaker than \<^verbatim>\<open>||\<close>: the self-hosted branch is
  \<^verbatim>\<open>data.values\<close> as it is, the other branch \<^verbatim>\<open>data.values?.map((f) => f.path) || []\<close>, where an
  array (the result of \<^verbatim>\<open>map\<close>) is truthy.
\<close>

definition getRepoFileList :: "BitbucketService \<Rightarrow> string option \<Rightarrow> world \<Rightarrow> (thrown + js_value) \<times> world" where
  "getRepoFileList this specificPath w =
     (case fetchJson this
             (if truthy specificPath then isServerURL this (isServer this) specificPath
              else isServerURL this (isServer this) None) w of
        (r, w') \<Rightarrow>
          (case (case r of
                   Inl e \<Rightarrow> Inl e
                 | Inr data \<Rightarrow>
                     (case get_prop data ''values'' of
                        Inl e \<Rightarrow> Inl e
                      | Inr vs \<Rightarrow>
                          if isServer this then Inr vs
                          else if nullish vs then Inr (JList [])
                          else (case call_map vs (\<lambda>f. js_get f ''path'') of
                                  Inl e \<Rightarrow> Inl e
                                | Inr paths \<Rightarrow> Inr (JList paths)))) of
             Inr files \<Rightarrow> Inr files
           | Inl e \<Rightarrow> Inr (JList []),
           w'))"

text \<open>\<^verbatim>\<open>getRepoLanguageList\<close>; the result is the \<^verbatim>\<open>languages\<close> array.\<close>

definition getRepoLanguageList :: "BitbucketService \<Rightarrow> world \<Rightarrow> (thrown + js_value list) \<times> world" where
  "getRepoLanguageList this w =
     (case fetchJson this (repoURL this) w of
        (r, w') \<Rightarrow>
          (case (case r of
                   Inl e \<Rightarrow> Inl e
                 | Inr data \<Rightarrow>
                     (case get_prop data ''language'' of
                        Inl e \<Rightarrow> Inl e
                      | Inr language \<Rightarrow> Inr [language])) of
             Inr languages \<Rightarrow> Inr languages
           | Inl e \<Rightarrow> Inr [],
           w'))"

definition isFilePresent :: "BitbucketService \<Rightarrow> string \<Rightarrow> world \<Rightarrow> (thrown + bool) \<times> world" where
  "isFilePresent this path w =
     (case fetchJson this (rawURL this (strip_leading_slash path)) w of
        (r, w') \<Rightarrow> ((case r of Inr data \<Rightarrow> Inr True | Inl e \<Rightarrow> Inr False), w'))"

text \<open>\<^verbatim>\<open>getFileContent\<close>: the data as it came, or \<^verbatim>\<open>null\<close>.\<close>

definition getFileContent :: "BitbucketService \<Rightarrow> string \<Rightarrow> world \<Rightarrow> (thrown + json) \<times> world" where
  "getFileContent this path w =
     (case fetchJson this (rawURL this (strip_leading_slash path)) w of
        (r, w') \<Rightarrow> ((case r of Inr data \<Rightarrow> Inr data | Inl e \<Rightarrow> Inr JNull), w'))"

definition isDockerfilePresent :: "BitbucketService \<Rightarrow> world \<Rightarrow> (thrown + bool) \<times> world" where
  "isDockerfilePresent this =
     isFilePresent this (contextDir (metadata this) @ ''/'' @ template (dockerfilePath (metadata this)))"

definition isTektonFolderPresent :: "BitbucketService \<Rightarrow> world \<Rightarrow> (thrown + bool) \<times> world" where
  "isTektonFolderPresent this = isFilePresent this (contextDir (metadata this) @ ''/.tekton'')"

definition getDockerfileContent :: "BitbucketService \<Rightarrow> world \<Rightarrow> (thrown + json) \<times> world" where
  "getDockerfileContent this =
     getFileContent this (contextDir (metadata this) @ ''/'' @ template (dockerfilePath (metadata this)))"

definition isDevfilePresent :: "BitbucketService \<Rightarrow> world \<Rightarrow> (thrown + bool) \<times> world" where
  "isDevfilePresent this =
     isFilePresent this (contextDir (metadata this) @ ''/'' @ template (devfilePath (metadata this)))"

definition getDevfileContent :: "BitbucketService \<Rightarrow> world \<Rightarrow> (thrown + json) \<times> world" where
  "getDevfileContent this =
     getFileContent this (contextDir (metadata this) @ ''/'' @ template (devfilePath (metadata this)))"

definition getPackageJsonContent :: "BitbucketService \<Rightarrow> world \<Rightarrow> (thrown + json) \<times> world" where
  "getPackageJsonContent this = getFileContent this (contextDir (metadata this) @ ''/package.json'')"

text \<open>
  The public operations by name, and the network after one call: the requests the call
  issued are those \<open>sent\<close> gained.
\<close>

datatype operation =
    IsRepoReachable
  | GetRepoBranchList
  | GetRepoFileList "string option"
  | GetRepoLanguageList
  | IsFilePresent string
  | GetFileContent string
  | IsDockerfilePresent
  | IsTektonFolderPresent
  | GetDockerfileContent
  | IsDevfilePresent
  | GetDevfileContent
  | GetPackageJsonContent

fun world_after :: "BitbucketService \<Rightarrow> operation \<Rightarrow> world \<Rightarrow> world" where
  "world_after this IsRepoReachable w = snd (isRepoReachable this w)"
| "world_after this GetRepoBranchList w = snd (getRepoBranchList this w)"
| "world_after this (GetRepoFileList sp) w = snd (getRepoFileList this sp w)"
| "world_after this GetRepoLanguageList w = snd (getRepoLanguageList this w)"
| "world_after this (IsFilePresent path) w = snd (isFilePresent this path w)"
| "world_after this (GetFileContent path) w = snd (getFileContent this path w)"
| "world_after this IsDockerfilePresent w = snd (isDockerfilePresent this w)"
| "world_after this IsTektonFolderPresent w = snd (isTektonFolderPresent this w)"
| "world_after this GetDockerfileContent w = snd (getDockerfileContent this w)"
| "world_after this IsDevfilePresent w = snd (isDevfilePresent this w)"
| "world_after this GetDevfileContent w = snd (getDevfileContent this w)"
| "world_after this GetPackageJsonContent w = snd (getPackageJsonContent this w)"

text \<open>The URL an operation requests, by the expressions above.\<close>

fun op_url :: "BitbucketService \<Rightarrow> operation \<Rightarrow> string" where
  "op_url this IsRepoReachable = repoURL this"
| "op_url this GetRepoBranchList = branchesURL this"
| "op_url this (GetRepoFileList sp) =
     isServerURL this (isServer this) (if truthy sp then sp else None)"
| "op_url this GetRepoLanguageList = repoURL this"
| "op_url this (IsFilePresent path) = rawURL this (strip_leading_slash path)"
| "op_url this (GetFileContent path) = rawURL this (strip_leading_slash path)"
| "op_url this IsDockerfilePresent =
     rawURL this (strip_leading_slash
       (contextDir (metadata this) @ ''/'' @ template (dockerfilePath (metadata this))))"
| "op_url this IsTektonFolderPresent =
     rawURL this (strip_leading_slash (contextDir (metadata this) @ ''/.tekton''))"
| "op_url this GetDockerfileContent =
     rawURL this (strip_leading_slash
       (contextDir (metadata this) @ ''/'' @ template (dockerfilePath (metadata this))))"
| "op_url this IsDevfilePresent =
     rawURL this (strip_leading_slash
       (contextDir (metadata this) @ ''/'' @ template (devfilePath (metadata this))))"
| "op_url this GetDevfileContent =
     rawURL this (strip_leading_slash
       (contextDir (metadata this) @ ''/'' @ template (devfilePath (metadata this))))"
| "op_url this GetPackageJsonContent =
     rawURL this (strip_leading_slash (contextDir (metadata this) @ ''/package.json''))"

text \<open>
  The operations whose URL names a branch: the file listing and everything that fetches a
  file's raw content.
\<close>

fun branch_scoped :: "operation \<Rightarrow> bool" where
  "branch_scoped IsRepoReachable = False"
| "branch_scoped GetRepoBranchList = False"
| "branch_scoped GetRepoLanguageList = False"
| "branch_scoped other = True"

text \<open>The requests issued between two states of the network.\<close>

definition issued :: "world \<Rightarrow> world \<Rightarrow> request list" where
  "issued w w' = drop (length (sent w)) (sent w')"

text \<open>
  The request \<^verbatim>\<open>fetchJson\<close> issues for a URL once the auth headers are derived.
\<close>

definition json_request :: "(string \<times> string) list option \<Rightarrow> string \<Rightarrow> request" where
  "json_request authHeaders u =
     \<lparr>rq_url = u, rq_method = ''GET'',
      rq_headers = (''Accept'', ''application/json'') #
                   (case authHeaders of None \<Rightarrow> [] | Some hs \<Rightarrow> hs)\<rparr>"

text \<open>
  The answers on which \<^verbatim>\<open>fetchJson\<close> rejects: the transport fails, the status is not a
  success, or the body cannot be delivered (it is malformed for \<^verbatim>\<open>json()\<close>).
\<close>

definition failing :: "response option \<Rightarrow> bool" where
  "failing reply =
     (case reply of
        None \<Rightarrow> True
      | Some r \<Rightarrow>
          (if ok r
           then (if content_type r = Some ''text/plain'' then body_text r = None
                 else body_json r = None)
           else True))"

section \<open>Concrete adapters and networks\<close>

definition example_parser :: "string \<Rightarrow> parsed_url" where
  "example_parser u =
     \<lparr>parsed_name = ''repo'', parsed_owner = ''org'',
      parsed_host = (if u = ''https://bitbucket.org/org/repo'' then ''bitbucket.org''
                     else ''git.example.com'')\<rparr>"

definition cloud_source :: GitSource where
  "cloud_source =
     \<lparr>url = ''https://bitbucket.org/org/repo'', ref = Some ''main'', gs_contextDir = None,
      gs_devfilePath = None, gs_dockerfilePath = None, secretType = None,
      secretContent = None\<rparr>"

definition server_source :: GitSource where
  "server_source =
     \<lparr>url = ''https://git.example.com/org/repo'', ref = None, gs_contextDir = None,
      gs_devfilePath = None, gs_dockerfilePath = None, secretType = None,
      secretContent = None\<rparr>"

definition basic_auth_source :: GitSource where
  "basic_auth_source =
     cloud_source\<lparr>secretType := Some BASIC_AUTH,
       secretContent := Some \<lparr>username = ''dXNlcg=='', password = ''cGFzcw==''\<rparr>\<rparr>"

text \<open>Basic auth announced, and no secret content to go with it.\<close>

definition no_secret_source :: GitSource where
  "no_secret_source = cloud_source\<lparr>secretType := Some BASIC_AUTH\<rparr>"

definition cloud_service :: BitbucketService where
  "cloud_service = new_BitbucketService example_parser cloud_source"

definition server_service :: BitbucketService where
  "server_service = new_BitbucketService example_parser server_source"

text \<open>
  A network that answers the requests for one URL with one response and fails on every
  other request; nothing was sent yet.
\<close>

definition answering :: "string \<Rightarrow> response \<Rightarrow> world" where
  "answering u r = \<lparr>respond = (\<lambda>rq. if rq_url rq = u then Some r else None), sent = []\<rparr>"

text \<open>
  A success response with a JSON body (its text and the value parsed from it), one carrying
  a file that is not JSON, and a response with an error status.
\<close>

definition json_response :: "string \<Rightarrow> json \<Rightarrow> response" where
  "json_response t j =
     \<lparr>status = 200, content_type = Some ''application/json'', body_text = Some t,
      body_json = Some j\<rparr>"

definition file_response :: response where
  "file_response =
     \<lparr>status = 200, content_type = Some ''application/octet-stream'',
      body_text = Some ''FROM node:18'', body_json = None\<rparr>"

definition error_response :: "nat \<Rightarrow> response" where
  "error_response code =
     \<lparr>status = code, content_type = None, body_text = Some [], body_json = None\<rparr>"

text \<open>A success response whose body is not JSON although it is declared so.\<close>

definition malformed_response :: response where
  "malformed_response =
     \<lparr>status = 200, content_type = Some ''application/json'',
      body_text = Some ''<html></html>'', body_json = None\<rparr>"

text \<open>A success response that declares plain text together with its character set.\<close>

definition charset_text_response :: response where
  "charset_text_response =
     \<lparr>status = 200, content_type = Some ''text/plain; charset=utf-8'',
      body_text = Some ''FROM node:18'', body_json = None\<rparr>"

text \<open>A branch listing whose only entry has no name.\<close>

definition unnamed_branches :: response where
  \<open>unnamed_branches =
     json_response ''{"values":[{}]}'' (JObject [(''values'', JArray [JObject []])])\<close>

text \<open>
  Listings with a \<^verbatim>\<open>null\<close> entry, with one named branch and with one file, and a repository
  resource that names its language.
\<close>

definition null_entry_listing :: response where
  \<open>null_entry_listing =
     json_response ''{"values":[null]}'' (JObject [(''values'', JArray [JNull])])\<close>

definition main_branch_listing :: response where
  \<open>main_branch_listing =
     json_response ''{"values":[{"name":"main"}]}''
       (JObject [(''values'', JArray [JObject [(''name'', JString ''main'')]])])\<close>

definition dockerfile_listing :: response where
  \<open>dockerfile_listing =
     json_response ''{"values":[{"path":"Dockerfile"}]}''
       (JObject [(''values'', JArray [JObject [(''path'', JString ''Dockerfile'')]])])\<close>

definition java_repository :: response where
  \<open>java_repository =
     json_response ''{"language":"java"}'' (JObject [(''language'', JString ''java'')])\<close>

section \<open>The codec inverts itself\<close>

lemma b64_table_all:
  "list_all (\<lambda>n. b64_char n \<in> set b64chars \<and> b64_index (b64_char n) = n \<and>
       b64_char n \<noteq> CHR ''-'' \<and> b64_char n \<noteq> CHR ''_'') [0..<64]"
  by code_simp

lemma b64_table:
  assumes "n < 64"
  shows "b64_char n \<in> set b64chars" and "b64_index (b64_char n) = n"
    and "b64_char n \<noteq> CHR ''-''" and "b64_char n \<noteq> CHR ''_''"
  using b64_table_all assms by (auto simp: list_all_iff)

lemma pad_not_b64: "CHR ''='' \<notin> set b64chars"
  by (simp add: b64chars_def)

lemma tidyB64_Cons_b64: "n < 64 \<Longrightarrow> tidyB64 (b64_char n # s) = b64_char n # tidyB64 s"
  by (simp add: tidyB64_def b64_table)

lemma tidyB64_Cons_pad: "tidyB64 (CHR ''='' # s) = tidyB64 s"
  by (simp add: tidyB64_def pad_not_b64)

lemma tidyB64_Nil: "tidyB64 [] = []"
  by (simp add: tidyB64_def)

lemma atob_btoa:
  "list_all (\<lambda>b. b < 256) bs \<Longrightarrow> atob (map b64_index (tidyB64 (btoa bs))) = Inr bs"
proof (induction bs rule: btoa.induct)
  case 1
  then show ?case by (simp add: tidyB64_Nil)
next
  case (2 a)
  then have a: "a < 256" by simp
  then have "a div 4 < 64" "(a mod 4) * 16 < 64" by arith+
  then show ?case using a
    by (simp add: tidyB64_Cons_b64 tidyB64_Cons_pad tidyB64_Nil b64_table)
next
  case (3 a b)
  then have ab: "a < 256" "b < 256" by simp_all
  then have "a div 4 < 64" "(a mod 4) * 16 + b div 16 < 64" "(b mod 16) * 4 < 64"
    by arith+
  then show ?case using ab
    by (simp add: tidyB64_Cons_b64 tidyB64_Cons_pad tidyB64_Nil b64_table)
next
  case (4 a b c bs)
  then have abc: "a < 256" "b < 256" "c < 256" and rest: "list_all (\<lambda>b. b < 256) bs"
    by simp_all
  then have "a div 4 < 64" "(a mod 4) * 16 + b div 16 < 64"
    "(b mod 16) * 4 + c div 64 < 64" "c mod 64 < 64"
    by arith+
  then show ?case using abc 4(1)[OF rest]
    by (simp add: tidyB64_Cons_b64 tidyB64_Cons_pad tidyB64_Nil b64_table)
qed

section \<open>The fetch routine\<close>

lemma fetchJson_auth_throws:
  "getAuthProvider this = Inl e \<Longrightarrow> fetchJson this u w = (Inl e, w)"
  by (simp add: fetchJson_def)

lemma fetchJson_world:
  "getAuthProvider this = Inr auth \<Longrightarrow>
   snd (fetchJson this u w) = w\<lparr>sent := sent w @ [json_request auth u]\<rparr>"
  by (simp add: fetchJson_def fetch_def json_request_def Let_def
      split: option.splits sum.splits prod.splits)

lemma fetchJson_result:
  "getAuthProvider this = Inr auth \<Longrightarrow>
   fst (fetchJson this u w) =
     (case respond w (json_request auth u) of
        None \<Rightarrow> Inl (Thrown_Error TypeError)
      | Some r \<Rightarrow>
          if \<not> ok r then Inl (Thrown_Response r)
          else if content_type r = Some ''text/plain''
          then (case body_text r of
                  None \<Rightarrow> Inl (Thrown_Error TypeError)
                | Some s \<Rightarrow> Inr (JString s))
          else (case body_json r of
                  None \<Rightarrow> Inl (Thrown_Error SyntaxError)
                | Some j \<Rightarrow> Inr j))"
  by (simp add: fetchJson_def fetch_def json_request_def Let_def
      split: option.splits sum.splits prod.splits)

lemma fetchJson_issued:
  "issued w (snd (fetchJson this u w)) =
     (case getAuthProvider this of Inl e \<Rightarrow> [] | Inr auth \<Rightarrow> [json_request auth u])"
  by (cases "getAuthProvider this")
    (simp_all add: fetchJson_auth_throws fetchJson_world issued_def)

lemma snd_ops:
  "snd (isRepoReachable this w) = snd (fetchJson this (repoURL this) w)"
  "snd (getRepoBranchList this w) = snd (fetchJson this (branchesURL this) w)"
  "snd (getRepoFileList this sp w) = snd (fetchJson this (op_url this (GetRepoFileList sp)) w)"
  "snd (getRepoLanguageList this w) = snd (fetchJson this (repoURL this) w)"
  "snd (isFilePresent this path w) =
     snd (fetchJson this (rawURL this (strip_leading_slash path)) w)"
  "snd (getFileContent this path w) =
     snd (fetchJson this (rawURL this (strip_leading_slash path)) w)"
  by (simp_all add: isRepoReachable_def getRepoBranchList_def getRepoFileList_def
      getRepoLanguageList_def isFilePresent_def getFileContent_def split: prod.splits)

lemma world_after_fetchJson:
  "world_after this op w = snd (fetchJson this (op_url this op) w)"
  by (cases op)
    (simp_all add: snd_ops isDockerfilePresent_def isTektonFolderPresent_def
      getDockerfileContent_def isDevfilePresent_def getDevfileContent_def
      getPackageJsonContent_def)

lemma issued_world_after:
  "issued w (world_after this op w) =
     (case getAuthProvider this of
        Inl e \<Rightarrow> []
      | Inr auth \<Rightarrow> [json_request auth (op_url this op)])"
  by (simp add: world_after_fetchJson fetchJson_issued)

section \<open>Authentication\<close>

lemma getAuthProvider_cloud_service: "getAuthProvider cloud_service = Inr None"
  by (simp add: getAuthProvider_def cloud_service_def new_BitbucketService_def
      cloud_source_def Let_def)

section \<open>Reachability\<close>

lemma isRepoReachable_fst:
  "fst (isRepoReachable this w) =
     Inr (case fst (fetchJson this (repoURL this) w) of
            Inl e \<Rightarrow>
              (if thrown_status e = Some 429 then RateLimitExceeded
               else if thrown_status e = Some 403 then PrivateRepo
               else if thrown_status e = Some 404 then ResourceNotFound
               else InvalidGitTypeSelected)
          | Inr data \<Rightarrow>
              (if data = JNull then InvalidGitTypeSelected
               else if get_prop data ''slug'' = Inr (JVal (JString (repoName (metadata this))))
               then Reachable else Unreachable))"
proof (cases "fetchJson this (repoURL this) w")
  case (Pair r w')
  show ?thesis
  proof (cases r)
    case (Inl e)
    with Pair show ?thesis by (simp add: isRepoReachable_def)
  next
    case (Inr data)
    with Pair show ?thesis
      by (cases data) (simp_all add: isRepoReachable_def split: option.splits)
  qed
qed

lemma cloud_service_simps:
  "isServer cloud_service = False"
  "baseURL cloud_service = ''https://api.bitbucket.org/2.0''"
  "repoName (metadata cloud_service) = ''repo''"
  "owner (metadata cloud_service) = ''org''"
  "defaultBranch (metadata cloud_service) = ''main''"
  "contextDir (metadata cloud_service) = []"
  by (simp_all add: cloud_service_def new_BitbucketService_def getRepoMetadata_def
      example_parser_def cloud_source_def Let_def)

lemma server_service_simps:
  "isServer server_service = True"
  "baseURL server_service = ''https://git.example.com/rest/api/1.0''"
  "repoName (metadata server_service) = ''repo''"
  "owner (metadata server_service) = ''org''"
  "defaultBranch (metadata server_service) = ''HEAD''"
  "contextDir (metadata server_service) = []"
  "getAuthProvider server_service = Inr None"
  by (simp_all add: server_service_def new_BitbucketService_def getRepoMetadata_def
      example_parser_def server_source_def Let_def getAuthProvider_def)

lemma fetchJson_answering:
  "getAuthProvider this = Inr auth \<Longrightarrow>
   fst (fetchJson this u (answering u r)) =
     (if \<not> ok r then Inl (Thrown_Response r)
      else if content_type r = Some ''text/plain''
      then (case body_text r of
              None \<Rightarrow> Inl (Thrown_Error TypeError)
            | Some s \<Rightarrow> Inr (JString s))
      else (case body_json r of
              None \<Rightarrow> Inl (Thrown_Error SyntaxError)
            | Some j \<Rightarrow> Inr j))"
  by (simp add: fetchJson_result answering_def json_request_def)

lemma ok_fixtures:
  "ok (json_response t j)" "ok file_response"
  "ok (error_response code) = (200 \<le> code \<and> code \<le> 299)"
  by (simp_all add: ok_def json_response_def file_response_def error_response_def)

lemma repoURL_cloud_service:
  "repoURL cloud_service = ''https://api.bitbucket.org/2.0/repositories/org/repo''"
  by (simp add: repoURL_def cloud_service_simps)

text \<open>
  C2, the claim as stated fails: a success response whose JSON body is \<open>null\<close> has no
  matching name, yet reading \<open>data.slug\<close> throws inside the \<open>try\<close> block, the \<open>catch\<close>
  finds no status on the error, and the result is \<open>InvalidGitTypeSelected\<close>, not
  \<open>Unreachable\<close>.
\<close>

theorem isRepoReachable_null_body_counterexample:
  "fst (fetchJson cloud_service ''https://api.bitbucket.org/2.0/repositories/org/repo''
          (answering ''https://api.bitbucket.org/2.0/repositories/org/repo''
             (json_response ''null'' JNull))) = Inr JNull
   \<and> get_prop JNull ''slug'' \<noteq> Inr (JVal (JString (repoName (metadata cloud_service))))
   \<and> fst (isRepoReachable cloud_service
          (answering ''https://api.bitbucket.org/2.0/repositories/org/repo''
             (json_response ''null'' JNull))) = Inr InvalidGitTypeSelected
   \<and> fst (isRepoReachable cloud_service
          (answering ''https://api.bitbucket.org/2.0/repositories/org/repo''
             (json_response ''null'' JNull))) \<noteq> Inr Unreachable"
proof -
  have "fst (fetchJson cloud_service ''https://api.bitbucket.org/2.0/repositories/org/repo''
          (answering ''https://api.bitbucket.org/2.0/repositories/org/repo''
             (json_response ''null'' JNull))) = Inr JNull"
    by (simp add: fetchJson_answering[OF getAuthProvider_cloud_service] ok_fixtures)
      (simp add: json_response_def)
  then show ?thesis
    by (simp add: isRepoReachable_fst repoURL_cloud_service)
qed

text \<open>
  C2, amended. When the underlying request fails, the status is \<open>RateLimitExceeded\<close>
  exactly for HTTP status 429, \<open>PrivateRepo\<close> exactly for 403, \<open>ResourceNotFound\<close> exactly
  for 404, and \<open>InvalidGitTypeSelected\<close> for every other failure (a transport failure
  among them). When it succeeds with a body other than \<open>null\<close>, the result is \<open>Reachable\<close>
  if the body's \<open>slug\<close> is the adapter's repository name and \<open>Unreachable\<close> if not. When it
  succeeds with the body \<open>null\<close>, the result is \<open>InvalidGitTypeSelected\<close>.
\<close>

theorem isRepoReachable_status:
  "fst (isRepoReachable this w) =
     Inr (case fst (fetchJson this (repoURL this) w) of
            Inl e \<Rightarrow>
              (if thrown_status e = Some 429 then RateLimitExceeded
               else if thrown_status e = Some 403 then PrivateRepo
               else if thrown_status e = Some 404 then ResourceNotFound
               else InvalidGitTypeSelected)
          | Inr data \<Rightarrow>
              (if data = JNull then InvalidGitTypeSelected
               else if get_prop data ''slug'' = Inr (JVal (JString (repoName (metadata this))))
               then Reachable else Unreachable))
   \<and> (getAuthProvider this = Inr auth \<longrightarrow>
        respond w (json_request auth (repoURL this)) = Some r \<longrightarrow> \<not> ok r \<longrightarrow>
        fst (isRepoReachable this w) =
          Inr (if status r = 429 then RateLimitExceeded
               else if status r = 403 then PrivateRepo
               else if status r = 404 then ResourceNotFound
               else InvalidGitTypeSelected))
   \<and> (getAuthProvider this = Inr auth \<longrightarrow>
        respond w (json_request auth (repoURL this)) = None \<longrightarrow>
        fst (isRepoReachable this w) = Inr InvalidGitTypeSelected)
   \<and> (getAuthProvider this = Inr auth \<longrightarrow>
        respond w (json_request auth (repoURL this)) = Some r \<longrightarrow> ok r \<longrightarrow>
        content_type r \<noteq> Some ''text/plain'' \<longrightarrow> body_json r = Some (JObject kvs) \<longrightarrow>
        fst (isRepoReachable this w) =
          Inr (if map_of kvs ''slug'' = Some (JString (repoName (metadata this)))
               then Reachable else Unreachable))"
  by (auto simp add: isRepoReachable_fst fetchJson_result split: option.splits)


theorem isRepoReachable_status_witness:
  "getAuthProvider cloud_service = Inr None
   \<and> \<not> ok (error_response 429)
   \<and> fst (isRepoReachable cloud_service
          (answering ''https://api.bitbucket.org/2.0/repositories/org/repo''
             (error_response 429))) = Inr RateLimitExceeded
   \<and> fst (isRepoReachable cloud_service
          (answering ''https://api.bitbucket.org/2.0/repositories/org/repo''
             (error_response 403))) = Inr PrivateRepo
   \<and> fst (isRepoReachable cloud_service
          (answering ''https://api.bitbucket.org/2.0/repositories/org/repo''
             (error_response 404))) = Inr ResourceNotFound
   \<and> fst (isRepoReachable cloud_service
          (answering ''https://api.bitbucket.org/2.0/repositories/org/repo''
             (error_response 500))) = Inr InvalidGitTypeSelected
   \<and> fst (isRepoReachable cloud_service
          (answering ''https://elsewhere.example.com/'' (error_response 404))) =
       Inr InvalidGitTypeSelected
   \<and> fst (isRepoReachable cloud_service
          (answering ''https://api.bitbucket.org/2.0/repositories/org/repo''
             (json_response ''{}'' (JObject [(''slug'', JString ''repo'')])))) = Inr Reachable
   \<and> fst (isRepoReachable cloud_service
          (answering ''https://api.bitbucket.org/2.0/repositories/org/repo''
             (json_response ''{}'' (JObject [(''slug'', JString ''other'')])))) = Inr Unreachable"
proof -
  let ?u = "''https://api.bitbucket.org/2.0/repositories/org/repo''"
  note auth = getAuthProvider_cloud_service
  have failure: "fst (isRepoReachable cloud_service (answering ?u (error_response code))) =
          Inr (if code = 429 then RateLimitExceeded
               else if code = 403 then PrivateRepo
               else if code = 404 then ResourceNotFound
               else InvalidGitTypeSelected)"
    if "\<not> ok (error_response code)" for code
    using isRepoReachable_status[THEN conjunct2, THEN conjunct1, rule_format,
        of cloud_service None "answering ?u (error_response code)" "error_response code",
        OF auth _ that]
    by (simp add: repoURL_cloud_service answering_def json_request_def)
      (simp add: error_response_def)
  have transport: "fst (isRepoReachable cloud_service
          (answering ''https://elsewhere.example.com/'' (error_response 404))) =
       Inr InvalidGitTypeSelected"
    using isRepoReachable_status[THEN conjunct2, THEN conjunct2, THEN conjunct1, rule_format,
        of cloud_service None "answering ''https://elsewhere.example.com/'' (error_response 404)",
        OF auth]
    by (simp add: repoURL_cloud_service answering_def json_request_def)
  have success: "fst (isRepoReachable cloud_service
          (answering ?u (json_response ''{}'' (JObject [(''slug'', JString s)])))) =
          Inr (if s = ''repo'' then Reachable else Unreachable)" for s
    using isRepoReachable_status[THEN conjunct2, THEN conjunct2, THEN conjunct2, rule_format,
        of cloud_service None "answering ?u (json_response ''{}'' (JObject [(''slug'', JString s)]))"
        "json_response ''{}'' (JObject [(''slug'', JString s)])" "[(''slug'', JString s)]",
        OF auth _ ok_fixtures(1)]
    by (simp add: repoURL_cloud_service answering_def json_request_def cloud_service_simps)
      (simp add: json_response_def)
  show ?thesis
    using auth failure[of 429] failure[of 403] failure[of 404] failure[of 500] transport
      success[of "''repo''"] success[of "''other''"]
    by (simp add: ok_fixtures)
qed

section \<open>The list operations\<close>

lemma getRepoBranchList_fst:
  "fst (getRepoBranchList this w) =
     Inr (case fst (fetchJson this (branchesURL this) w) of
            Inl e \<Rightarrow> []
          | Inr data \<Rightarrow>
              (case get_prop data ''values'' of
                 Inl e \<Rightarrow> []
               | Inr vs \<Rightarrow>
                   (case call_map vs (\<lambda>b. js_get b ''name'') of
                      Inl e \<Rightarrow> []
                    | Inr list \<Rightarrow> list)))"
  by (simp add: getRepoBranchList_def split: prod.splits sum.splits)

lemma getRepoFileList_fst:
  "fst (getRepoFileList this sp w) =
     Inr (case fst (fetchJson this (op_url this (GetRepoFileList sp)) w) of
            Inl e \<Rightarrow> JList []
          | Inr data \<Rightarrow>
              (case get_prop data ''values'' of
                 Inl e \<Rightarrow> JList []
               | Inr vs \<Rightarrow>
                   if isServer this then vs
                   else if nullish vs then JList []
                   else (case call_map vs (\<lambda>f. js_get f ''path'') of
                           Inl e \<Rightarrow> JList []
                         | Inr paths \<Rightarrow> JList paths)))"
  by (simp add: getRepoFileList_def split: prod.splits sum.splits)

lemma getRepoLanguageList_fst:
  "fst (getRepoLanguageList this w) =
     Inr (case fst (fetchJson this (repoURL this) w) of
            Inl e \<Rightarrow> []
          | Inr data \<Rightarrow>
              (case get_prop data ''language'' of
                 Inl e \<Rightarrow> []
               | Inr language \<Rightarrow> [language]))"
  by (simp add: getRepoLanguageList_def split: prod.splits sum.splits)

lemma fetchJson_fails_iff:
  "getAuthProvider this = Inr auth \<Longrightarrow>
   isl (fst (fetchJson this u w)) = failing (respond w (json_request auth u))"
  by (simp add: fetchJson_result failing_def split: option.splits)

lemma branchesURL_cloud_service:
  "branchesURL cloud_service = ''https://api.bitbucket.org/2.0/repositories/org/repo/refs/branches''"
  by (simp add: branchesURL_def cloud_service_simps)

lemma files_url_server_service:
  "op_url server_service (GetRepoFileList None) =
     ''https://git.example.com/rest/api/1.0/projects/org/repos/repo/files/?limit=50&at=HEAD''"
  by (simp add: isServerURL_def server_service_simps)

lemma files_url_cloud_service:
  "op_url cloud_service (GetRepoFileList None) =
     ''https://api.bitbucket.org/2.0/repositories/org/repo/src/main/?pagelen=50''"
  by (simp add: isServerURL_def cloud_service_simps)

lemma fetchJson_cloud_json:
  "fst (fetchJson cloud_service u (answering u (json_response t j))) = Inr j"
  by (simp add: fetchJson_answering[OF getAuthProvider_cloud_service] ok_fixtures)
    (simp add: json_response_def)

lemma fetchJson_cloud_error:
  "\<not> ok (error_response code) \<Longrightarrow>
   fst (fetchJson cloud_service u (answering u (error_response code))) =
     Inl (Thrown_Response (error_response code))"
  by (simp add: fetchJson_answering[OF getAuthProvider_cloud_service])

text \<open>
  C7, the claim as stated fails: on a success response without a \<open>language\<close> field the
  result is not the empty list but the one-element list holding \<open>undefined\<close>.
\<close>

theorem language_absent_counterexample:
  "fst (fetchJson cloud_service ''https://api.bitbucket.org/2.0/repositories/org/repo''
          (answering ''https://api.bitbucket.org/2.0/repositories/org/repo''
             (json_response ''{}'' (JObject [])))) = Inr (JObject [])
   \<and> get_prop (JObject []) ''language'' = Inr JUndefined
   \<and> fst (getRepoLanguageList cloud_service
          (answering ''https://api.bitbucket.org/2.0/repositories/org/repo''
             (json_response ''{}'' (JObject [])))) = Inr [JUndefined]"
  by (simp add: getRepoLanguageList_fst repoURL_cloud_service fetchJson_cloud_json)

text \<open>
  C7, amended. The language-list operation GETs the repository resource and wraps what
  reading the \<open>language\<close> property of the response gives as a one-element list: the
  field's value when it is present, and \<open>undefined\<close> when it is absent. It returns an
  empty list on any failure of the fetch, and for the body \<open>null\<close>, on which the property
  read throws.
\<close>

theorem getRepoLanguageList_wraps:
  "(getAuthProvider this = Inr auth \<longrightarrow>
      issued w (snd (getRepoLanguageList this w)) = [json_request auth (repoURL this)])
   \<and> (fst (fetchJson this (repoURL this) w) = Inl e \<longrightarrow>
        fst (getRepoLanguageList this w) = Inr [])
   \<and> (fst (fetchJson this (repoURL this) w) = Inr data \<longrightarrow>
        get_prop data ''language'' = Inr v \<longrightarrow>
        fst (getRepoLanguageList this w) = Inr [v])
   \<and> (fst (fetchJson this (repoURL this) w) = Inr (JObject kvs) \<longrightarrow>
        map_of kvs ''language'' = Some l \<longrightarrow>
        fst (getRepoLanguageList this w) = Inr [JVal l])
   \<and> (fst (fetchJson this (repoURL this) w) = Inr (JObject kvs) \<longrightarrow>
        map_of kvs ''language'' = None \<longrightarrow>
        fst (getRepoLanguageList this w) = Inr [JUndefined])
   \<and> (fst (fetchJson this (repoURL this) w) = Inr JNull \<longrightarrow>
        fst (getRepoLanguageList this w) = Inr [])"
  by (simp add: getRepoLanguageList_fst snd_ops fetchJson_issued)

theorem getRepoLanguageList_wraps_witness:
  "getAuthProvider cloud_service = Inr None
   \<and> issued (answering ''https://api.bitbucket.org/2.0/repositories/org/repo'' (error_response 404))
        (snd (getRepoLanguageList cloud_service
           (answering ''https://api.bitbucket.org/2.0/repositories/org/repo''
              (error_response 404)))) =
       [json_request None ''https://api.bitbucket.org/2.0/repositories/org/repo'']
   \<and> fst (getRepoLanguageList cloud_service
          (answering ''https://api.bitbucket.org/2.0/repositories/org/repo''
             (error_response 404))) = Inr []
   \<and> fst (getRepoLanguageList cloud_service
          (answering ''https://api.bitbucket.org/2.0/repositories/org/repo''
             (json_response ''{}'' (JObject [(''language'', JString ''java'')])))) =
       Inr [JVal (JString ''java'')]
   \<and> fst (getRepoLanguageList cloud_service
          (answering ''https://api.bitbucket.org/2.0/repositories/org/repo''
             (json_response ''{}'' (JObject [(''slug'', JString ''repo'')])))) =
       Inr [JUndefined]
   \<and> fst (getRepoLanguageList cloud_service
          (answering ''https://api.bitbucket.org/2.0/repositories/org/repo''
             (json_response ''null'' JNull))) = Inr []"
proof -
  let ?u = "''https://api.bitbucket.org/2.0/repositories/org/repo''"
  note auth = getAuthProvider_cloud_service
  have u: "repoURL cloud_service = ?u" by (rule repoURL_cloud_service)
  have nok: "\<not> ok (error_response 404)" by (simp add: ok_fixtures)
  note inst = getRepoLanguageList_wraps[of cloud_service, unfolded u]
  have a: "issued (answering ?u (error_response 404))
        (snd (getRepoLanguageList cloud_service (answering ?u (error_response 404)))) =
       [json_request None ?u]"
    using inst[THEN conjunct1, rule_format, OF auth] .
  have b: "fst (getRepoLanguageList cloud_service (answering ?u (error_response 404))) = Inr []"
    using inst[THEN conjunct2, THEN conjunct1, rule_format, OF fetchJson_cloud_error[OF nok]] .
  have c: "fst (getRepoLanguageList cloud_service
          (answering ?u (json_response ''{}'' (JObject [(''language'', JString ''java'')])))) =
       Inr [JVal (JString ''java'')]"
    using inst[THEN conjunct2, THEN conjunct2, THEN conjunct2, THEN conjunct1, rule_format,
        OF fetchJson_cloud_json, where l = "JString ''java''"]
    by simp
  have d: "fst (getRepoLanguageList cloud_service
          (answering ?u (json_response ''{}'' (JObject [(''slug'', JString ''repo'')])))) =
       Inr [JUndefined]"
    using inst[THEN conjunct2, THEN conjunct2, THEN conjunct2, THEN conjunct2, THEN conjunct1,
        rule_format, OF fetchJson_cloud_json]
    by simp
  have e: "fst (getRepoLanguageList cloud_service (answering ?u (json_response ''null'' JNull))) =
       Inr []"
    using inst[THEN conjunct2, THEN conjunct2, THEN conjunct2, THEN conjunct2, THEN conjunct2,
        rule_format, OF fetchJson_cloud_json] .
  show ?thesis using auth a b c d e by simp
qed

text \<open>
  C8. For the adapter of \<open>https://bitbucket.org/org/repo\<close> with ref \<open>main\<close>, a success
  response with the body \<open>{ values: [{name: "main"}, {name: "dev"}] }\<close> to the branch
  request gives the branch names \<open>main\<close> and \<open>dev\<close>, in this order, and a response with
  status 500 gives the empty list.
\<close>

theorem branch_list_scenario:
  "P ''https://bitbucket.org/org/repo'' =
     \<lparr>parsed_name = ''repo'', parsed_owner = ''org'', parsed_host = ''bitbucket.org''\<rparr> \<longrightarrow>
   fst (getRepoBranchList
          (new_BitbucketService P
             \<lparr>url = ''https://bitbucket.org/org/repo'', ref = Some ''main'',
              gs_contextDir = dir, gs_devfilePath = devfile, gs_dockerfilePath = dockerfile,
              secretType = None, secretContent = None\<rparr>)
          (answering ''https://api.bitbucket.org/2.0/repositories/org/repo/refs/branches''
             \<lparr>status = 200, content_type = Some ''application/json'', body_text = t,
              body_json = Some (JObject [(''values'',
                JArray [JObject [(''name'', JString ''main'')],
                        JObject [(''name'', JString ''dev'')]])])\<rparr>)) =
     Inr [JVal (JString ''main''), JVal (JString ''dev'')]
   \<and> fst (getRepoBranchList
          (new_BitbucketService P
             \<lparr>url = ''https://bitbucket.org/org/repo'', ref = Some ''main'',
              gs_contextDir = dir, gs_devfilePath = devfile, gs_dockerfilePath = dockerfile,
              secretType = None, secretContent = None\<rparr>)
          (answering ''https://api.bitbucket.org/2.0/repositories/org/repo/refs/branches''
             \<lparr>status = 500, content_type = ct, body_text = t, body_json = j\<rparr>)) =
     Inr []"
proof
  let ?g = "\<lparr>url = ''https://bitbucket.org/org/repo'', ref = Some ''main'',
              gs_contextDir = dir, gs_devfilePath = devfile, gs_dockerfilePath = dockerfile,
              secretType = None, secretContent = None\<rparr>"
  let ?svc = "new_BitbucketService P ?g"
  let ?u = "''https://api.bitbucket.org/2.0/repositories/org/repo/refs/branches''"
  assume P: "P ''https://bitbucket.org/org/repo'' =
     \<lparr>parsed_name = ''repo'', parsed_owner = ''org'', parsed_host = ''bitbucket.org''\<rparr>"
  have auth: "getAuthProvider ?svc = Inr None"
    by (simp add: getAuthProvider_def new_BitbucketService_def Let_def)
  have u: "branchesURL ?svc = ?u"
    by (simp add: branchesURL_def new_BitbucketService_def getRepoMetadata_def Let_def P)
  have ok: "fst (fetchJson ?svc ?u (answering ?u
             \<lparr>status = 200, content_type = Some ''application/json'', body_text = t,
              body_json = Some (JObject [(''values'',
                JArray [JObject [(''name'', JString ''main'')],
                        JObject [(''name'', JString ''dev'')]])])\<rparr>)) =
     Inr (JObject [(''values'',
                JArray [JObject [(''name'', JString ''main'')],
                        JObject [(''name'', JString ''dev'')]])])"
    by (simp add: fetchJson_answering[OF auth] ok_def)
  have bad: "fst (fetchJson ?svc ?u (answering ?u
             \<lparr>status = 500, content_type = ct, body_text = t, body_json = j\<rparr>)) =
     Inl (Thrown_Response \<lparr>status = 500, content_type = ct, body_text = t, body_json = j\<rparr>)"
    by (simp add: fetchJson_answering[OF auth] ok_def)
  show "fst (getRepoBranchList ?svc (answering ?u
             \<lparr>status = 200, content_type = Some ''application/json'', body_text = t,
              body_json = Some (JObject [(''values'',
                JArray [JObject [(''name'', JString ''main'')],
                        JObject [(''name'', JString ''dev'')]])])\<rparr>)) =
     Inr [JVal (JString ''main''), JVal (JString ''dev'')]
   \<and> fst (getRepoBranchList ?svc (answering ?u
             \<lparr>status = 500, content_type = ct, body_text = t, body_json = j\<rparr>)) =
     Inr []"
    by (simp add: getRepoBranchList_fst u ok bad call_map_def)
qed

theorem branch_list_scenario_witness:
  "example_parser ''https://bitbucket.org/org/repo'' =
     \<lparr>parsed_name = ''repo'', parsed_owner = ''org'', parsed_host = ''bitbucket.org''\<rparr>
   \<and> fst (getRepoBranchList (new_BitbucketService example_parser cloud_source)
          (answering ''https://api.bitbucket.org/2.0/repositories/org/repo/refs/branches''
             \<lparr>status = 200, content_type = Some ''application/json'', body_text = Some [],
              body_json = Some (JObject [(''values'',
                JArray [JObject [(''name'', JString ''main'')],
                        JObject [(''name'', JString ''dev'')]])])\<rparr>)) =
     Inr [JVal (JString ''main''), JVal (JString ''dev'')]
   \<and> fst (getRepoBranchList (new_BitbucketService example_parser cloud_source)
          (answering ''https://api.bitbucket.org/2.0/repositories/org/repo/refs/branches''
             \<lparr>status = 500, content_type = None, body_text = Some [], body_json = None\<rparr>)) =
     Inr []"
proof -
  have p: "example_parser ''https://bitbucket.org/org/repo'' =
     \<lparr>parsed_name = ''repo'', parsed_owner = ''org'', parsed_host = ''bitbucket.org''\<rparr>"
    by (simp add: example_parser_def)
  show ?thesis
    using p branch_list_scenario[where P = example_parser and dir = None and devfile = None
        and dockerfile = None and t = "Some []" and ct = None and j = None]
    by (simp add: cloud_source_def)
qed

text \<open>
  C10. In SaaS mode, a successful directory-listing response whose \<open>values\<close> field is
  absent gives the empty files list (and so does the body \<open>null\<close>, through the \<open>catch\<close>).
  In self-hosted mode the absent field is not collapsed: the files are \<open>undefined\<close>. For an
  object body, the field is absent when the object has no such property.
\<close>

theorem file_list_absent_values:
  "(\<not> isServer this \<longrightarrow>
      fst (fetchJson this (op_url this (GetRepoFileList sp)) w) = Inr data \<longrightarrow>
      get_prop data ''values'' = Inr JUndefined \<longrightarrow>
      fst (getRepoFileList this sp w) = Inr (JList []))
   \<and> (\<not> isServer this \<longrightarrow>
      fst (fetchJson this (op_url this (GetRepoFileList sp)) w) = Inr JNull \<longrightarrow>
      fst (getRepoFileList this sp w) = Inr (JList []))
   \<and> (isServer this \<longrightarrow>
      fst (fetchJson this (op_url this (GetRepoFileList sp)) w) = Inr data \<longrightarrow>
      get_prop data ''values'' = Inr JUndefined \<longrightarrow>
      fst (getRepoFileList this sp w) = Inr JUndefined)
   \<and> (get_prop (JObject kvs) ''values'' = Inr JUndefined) = (map_of kvs ''values'' = None)"
  by (simp add: getRepoFileList_fst nullish_def del: op_url.simps split: option.splits)

theorem file_list_absent_values_witness:
  "\<not> isServer cloud_service
   \<and> fst (fetchJson cloud_service (op_url cloud_service (GetRepoFileList None))
          (answering ''https://api.bitbucket.org/2.0/repositories/org/repo/src/main/?pagelen=50''
             (json_response ''{}'' (JObject [])))) = Inr (JObject [])
   \<and> get_prop (JObject []) ''values'' = Inr JUndefined
   \<and> fst (getRepoFileList cloud_service None
          (answering ''https://api.bitbucket.org/2.0/repositories/org/repo/src/main/?pagelen=50''
             (json_response ''{}'' (JObject [])))) = Inr (JList [])
   \<and> fst (getRepoFileList cloud_service None
          (answering ''https://api.bitbucket.org/2.0/repositories/org/repo/src/main/?pagelen=50''
             (json_response ''null'' JNull))) = Inr (JList [])
   \<and> isServer server_service
   \<and> fst (getRepoFileList server_service None
          (answering
             ''https://git.example.com/rest/api/1.0/projects/org/repos/repo/files/?limit=50&at=HEAD''
             (json_response ''{}'' (JObject [])))) = Inr JUndefined"
proof -
  let ?c = "''https://api.bitbucket.org/2.0/repositories/org/repo/src/main/?pagelen=50''"
  let ?s = "''https://git.example.com/rest/api/1.0/projects/org/repos/repo/files/?limit=50&at=HEAD''"
  have cloud: "\<not> isServer cloud_service" and server: "isServer server_service"
    by (simp_all add: cloud_service_simps server_service_simps)
  have absent: "get_prop (JObject []) ''values'' = Inr JUndefined" by simp
  have fc: "fst (fetchJson cloud_service (op_url cloud_service (GetRepoFileList None))
          (answering ?c (json_response t j))) = Inr j" for t j
    unfolding files_url_cloud_service by (rule fetchJson_cloud_json)
  have fs: "fst (fetchJson server_service (op_url server_service (GetRepoFileList None))
          (answering ?s (json_response ''{}'' (JObject [])))) = Inr (JObject [])"
    unfolding files_url_server_service
    by (simp add: fetchJson_answering[OF server_service_simps(7)] ok_fixtures)
      (simp add: json_response_def)
  note a = file_list_absent_values[THEN conjunct1, rule_format, OF cloud fc absent]
  note b = file_list_absent_values[THEN conjunct2, THEN conjunct1, rule_format, OF cloud fc]
  note c = file_list_absent_values[THEN conjunct2, THEN conjunct2, THEN conjunct1, rule_format,
      OF server fs absent]
  show ?thesis using cloud server absent fc a b c by simp
qed

section \<open>File presence\<close>

lemma isFilePresent_fst:
  "fst (isFilePresent this path w) =
     Inr (\<not> isl (fst (fetchJson this (rawURL this (strip_leading_slash path)) w)))"
  by (simp add: isFilePresent_def split: prod.splits sum.splits)

lemma raw_url_cloud_service:
  "rawURL cloud_service p = ''https://api.bitbucket.org/2.0/repositories/org/repo/src/main/'' @ p"
  by (simp add: rawURL_def cloud_service_simps)

text \<open>
  C6, the claim as stated fails: the GET for \<open>/Dockerfile\<close> is answered with status 200,
  but the body is not JSON and the content type is not \<open>text/plain\<close>, so the fetch routine
  rejects while parsing the body and the check returns \<open>false\<close>.
\<close>

theorem isFilePresent_unparsed_body_counterexample:
  "issued (answering ''https://api.bitbucket.org/2.0/repositories/org/repo/src/main/Dockerfile''
             file_response)
     (snd (isFilePresent cloud_service ''/Dockerfile''
        (answering ''https://api.bitbucket.org/2.0/repositories/org/repo/src/main/Dockerfile''
           file_response))) =
     [json_request None
        ''https://api.bitbucket.org/2.0/repositories/org/repo/src/main/Dockerfile'']
   \<and> respond (answering
          ''https://api.bitbucket.org/2.0/repositories/org/repo/src/main/Dockerfile''
          file_response)
        (json_request None
           ''https://api.bitbucket.org/2.0/repositories/org/repo/src/main/Dockerfile'') =
       Some file_response
   \<and> status file_response = 200
   \<and> ok file_response
   \<and> fst (isFilePresent cloud_service ''/Dockerfile''
          (answering ''https://api.bitbucket.org/2.0/repositories/org/repo/src/main/Dockerfile''
             file_response)) = Inr False"
proof -
  have "fst (fetchJson cloud_service
          ''https://api.bitbucket.org/2.0/repositories/org/repo/src/main/Dockerfile''
          (answering ''https://api.bitbucket.org/2.0/repositories/org/repo/src/main/Dockerfile''
             file_response)) = Inl (Thrown_Error SyntaxError)"
    by (simp add: fetchJson_answering[OF getAuthProvider_cloud_service] ok_fixtures)
      (simp add: file_response_def)
  then show ?thesis
    by (simp add: isFilePresent_fst raw_url_cloud_service snd_ops fetchJson_issued
        getAuthProvider_cloud_service ok_fixtures)
      (simp add: answering_def json_request_def file_response_def)
qed

text \<open>
  C6, amended. For every path, the file-existence check strips one leading slash from the
  path, issues the GET for the raw content at that path, and never throws. It returns
  \<open>true\<close> if and only if the fetch routine succeeds: the response has a 2xx status and its
  body is delivered (as text when the content type is exactly \<open>text/plain\<close>, as parsed
  JSON otherwise). On every failure of the routine it returns \<open>false\<close>.
\<close>

theorem isFilePresent_iff_fetch_delivers:
  "fst (isFilePresent this path w) =
     Inr (case getAuthProvider this of
            Inl e \<Rightarrow> False
          | Inr auth \<Rightarrow>
              (case respond w (json_request auth (rawURL this (strip_leading_slash path))) of
                 None \<Rightarrow> False
               | Some r \<Rightarrow>
                   ok r \<and>
                   (if content_type r = Some ''text/plain'' then body_text r \<noteq> None
                    else body_json r \<noteq> None)))
   \<and> strip_leading_slash (CHR ''/'' # rest) = rest
   \<and> strip_leading_slash path =
       (if path \<noteq> [] \<and> hd path = CHR ''/'' then tl path else path)
   \<and> issued w (snd (isFilePresent this path w)) =
       (case getAuthProvider this of
          Inl e \<Rightarrow> []
        | Inr auth \<Rightarrow> [json_request auth (rawURL this (strip_leading_slash path))])"
proof -
  have a: "fst (isFilePresent this path w) =
     Inr (case getAuthProvider this of
            Inl e \<Rightarrow> False
          | Inr auth \<Rightarrow>
              (case respond w (json_request auth (rawURL this (strip_leading_slash path))) of
                 None \<Rightarrow> False
               | Some r \<Rightarrow>
                   ok r \<and>
                   (if content_type r = Some ''text/plain'' then body_text r \<noteq> None
                    else body_json r \<noteq> None)))"
  proof (cases "getAuthProvider this")
    case (Inl e)
    then show ?thesis by (simp add: isFilePresent_fst fetchJson_auth_throws)
  next
    case (Inr auth)
    then show ?thesis
      by (auto simp add: isFilePresent_fst fetchJson_fails_iff failing_def split: option.splits)
  qed
  have b: "strip_leading_slash (CHR ''/'' # rest) = rest"
    by simp
  have c: "strip_leading_slash path =
       (if path \<noteq> [] \<and> hd path = CHR ''/'' then tl path else path)"
    by (cases path) simp_all
  have d: "issued w (snd (isFilePresent this path w)) =
       (case getAuthProvider this of
          Inl e \<Rightarrow> []
        | Inr auth \<Rightarrow> [json_request auth (rawURL this (strip_leading_slash path))])"
    by (simp add: snd_ops fetchJson_issued)
  show ?thesis
    by (intro conjI a b c d)
qed

section \<open>Request construction\<close>

lemma new_BitbucketService_simps:
  "gitsource (new_BitbucketService P g) = g"
  "metadata (new_BitbucketService P g) = getRepoMetadata P g"
  "isServer (new_BitbucketService P g) = (parsed_host (P (url g)) \<noteq> ''bitbucket.org'')"
  "baseURL (new_BitbucketService P g) =
     (if parsed_host (P (url g)) \<noteq> ''bitbucket.org''
      then ''https://'' @ parsed_host (P (url g)) @ ''/rest/api/1.0''
      else ''https://api.bitbucket.org/2.0'')"
  by (simp_all add: new_BitbucketService_def getRepoMetadata_def Let_def)

lemma getRepoMetadata_simps:
  "repoName (getRepoMetadata P g) = parsed_name (P (url g))"
  "owner (getRepoMetadata P g) = parsed_owner (P (url g))"
  "host (getRepoMetadata P g) = parsed_host (P (url g))"
  "defaultBranch (getRepoMetadata P g) =
     (case ref g of None \<Rightarrow> ''HEAD'' | Some r \<Rightarrow> if r = [] then ''HEAD'' else r)"
  "contextDir (getRepoMetadata P g) =
     (case gs_contextDir g of None \<Rightarrow> [] | Some d \<Rightarrow> strip_trailing_slash d)"
  by (simp_all add: getRepoMetadata_def Let_def)

text \<open>The part of the URL that every operation shares.\<close>

lemma op_url_prefix:
  "prefix (if isServer this
           then baseURL this @ ''/projects/'' @ owner (metadata this) @ ''/repos/'' @
                repoName (metadata this)
           else baseURL this @ ''/repositories/'' @ owner (metadata this) @ ''/'' @
                repoName (metadata this))
     (op_url this op)"
  by (cases op) (simp_all add: repoURL_def branchesURL_def isServerURL_def rawURL_def)

lemma issued_requests:
  "rq \<in> set (issued w (world_after this op w)) \<Longrightarrow>
   rq_method rq = ''GET'' \<and> rq_url rq = op_url this op"
  by (auto simp add: issued_world_after json_request_def split: sum.splits)

text \<open>
  C1. The mode of an adapter is decided by its constructor from the host of the parsed URL
  and from nothing else, and no operation changes the adapter. When the host is not
  \<open>bitbucket.org\<close>, the adapter is in self-hosted mode, its base path is
  \<open>https://<host>/rest/api/1.0\<close>, and every request that any public operation issues is a
  GET whose URL starts with \<open>https://<host>/rest/api/1.0/projects/<owner>/repos/<name>\<close>;
  the four URL families have the self-hosted shape (\<open>/branches\<close>, \<open>/files/...?limit=50&at=\<close>,
  \<open>/raw/...?at=\<close>). When the host is \<open>bitbucket.org\<close>, every such URL starts with
  \<open>https://api.bitbucket.org/2.0/repositories/<owner>/<name>\<close>.
\<close>

theorem topology_fixed_by_host:
  "isServer (new_BitbucketService P g) = (parsed_host (P (url g)) \<noteq> ''bitbucket.org'')
   \<and> (parsed_host (P (url g)) \<noteq> ''bitbucket.org'' \<longrightarrow>
        baseURL (new_BitbucketService P g) =
          ''https://'' @ parsed_host (P (url g)) @ ''/rest/api/1.0''
        \<and> (\<forall>rq \<in> set (issued w (world_after (new_BitbucketService P g) op w)).
              rq_method rq = ''GET'' \<and>
              rq_url rq = op_url (new_BitbucketService P g) op \<and>
              prefix (''https://'' @ parsed_host (P (url g)) @ ''/rest/api/1.0/projects/'' @
                      parsed_owner (P (url g)) @ ''/repos/'' @ parsed_name (P (url g)))
                (rq_url rq))
        \<and> repoURL (new_BitbucketService P g) =
            ''https://'' @ parsed_host (P (url g)) @ ''/rest/api/1.0/projects/'' @
            parsed_owner (P (url g)) @ ''/repos/'' @ parsed_name (P (url g))
        \<and> branchesURL (new_BitbucketService P g) =
            ''https://'' @ parsed_host (P (url g)) @ ''/rest/api/1.0/projects/'' @
            parsed_owner (P (url g)) @ ''/repos/'' @ parsed_name (P (url g)) @ ''/branches''
        \<and> isServerURL (new_BitbucketService P g) (isServer (new_BitbucketService P g)) sp =
            ''https://'' @ parsed_host (P (url g)) @ ''/rest/api/1.0/projects/'' @
            parsed_owner (P (url g)) @ ''/repos/'' @ parsed_name (P (url g)) @ ''/files/'' @
            contextDir (metadata (new_BitbucketService P g)) @
            (if truthy sp then ''/'' @ template sp else []) @ ''?limit=50&at='' @
            defaultBranch (metadata (new_BitbucketService P g))
        \<and> rawURL (new_BitbucketService P g) filePath =
            ''https://'' @ parsed_host (P (url g)) @ ''/rest/api/1.0/projects/'' @
            parsed_owner (P (url g)) @ ''/repos/'' @ parsed_name (P (url g)) @ ''/raw/'' @
            filePath @ ''?at='' @ defaultBranch (metadata (new_BitbucketService P g)))
   \<and> (parsed_host (P (url g)) = ''bitbucket.org'' \<longrightarrow>
        baseURL (new_BitbucketService P g) = ''https://api.bitbucket.org/2.0''
        \<and> (\<forall>rq \<in> set (issued w (world_after (new_BitbucketService P g) op w)).
              rq_method rq = ''GET'' \<and>
              rq_url rq = op_url (new_BitbucketService P g) op \<and>
              prefix (''https://api.bitbucket.org/2.0/repositories/'' @
                      parsed_owner (P (url g)) @ ''/'' @ parsed_name (P (url g)))
                (rq_url rq)))"
proof -
  let ?svc = "new_BitbucketService P g"
  have mode: "isServer ?svc = (parsed_host (P (url g)) \<noteq> ''bitbucket.org'')"
    by (simp add: new_BitbucketService_simps)
  have server: "baseURL ?svc = ''https://'' @ parsed_host (P (url g)) @ ''/rest/api/1.0''
        \<and> (\<forall>rq \<in> set (issued w (world_after ?svc op w)).
              rq_method rq = ''GET'' \<and> rq_url rq = op_url ?svc op \<and>
              prefix (''https://'' @ parsed_host (P (url g)) @ ''/rest/api/1.0/projects/'' @
                      parsed_owner (P (url g)) @ ''/repos/'' @ parsed_name (P (url g)))
                (rq_url rq))
        \<and> repoURL ?svc =
            ''https://'' @ parsed_host (P (url g)) @ ''/rest/api/1.0/projects/'' @
            parsed_owner (P (url g)) @ ''/repos/'' @ parsed_name (P (url g))
        \<and> branchesURL ?svc =
            ''https://'' @ parsed_host (P (url g)) @ ''/rest/api/1.0/projects/'' @
            parsed_owner (P (url g)) @ ''/repos/'' @ parsed_name (P (url g)) @ ''/branches''
        \<and> isServerURL ?svc (isServer ?svc) sp =
            ''https://'' @ parsed_host (P (url g)) @ ''/rest/api/1.0/projects/'' @
            parsed_owner (P (url g)) @ ''/repos/'' @ parsed_name (P (url g)) @ ''/files/'' @
            contextDir (metadata ?svc) @
            (if truthy sp then ''/'' @ template sp else []) @ ''?limit=50&at='' @
            defaultBranch (metadata ?svc)
        \<and> rawURL ?svc filePath =
            ''https://'' @ parsed_host (P (url g)) @ ''/rest/api/1.0/projects/'' @
            parsed_owner (P (url g)) @ ''/repos/'' @ parsed_name (P (url g)) @ ''/raw/'' @
            filePath @ ''?at='' @ defaultBranch (metadata ?svc)"
    if h: "parsed_host (P (url g)) \<noteq> ''bitbucket.org''"
  proof -
    have b: "baseURL ?svc = ''https://'' @ parsed_host (P (url g)) @ ''/rest/api/1.0''"
      and s: "isServer ?svc"
      using h by (simp_all add: new_BitbucketService_simps)
    have p: "prefix (''https://'' @ parsed_host (P (url g)) @ ''/rest/api/1.0/projects/'' @
                      parsed_owner (P (url g)) @ ''/repos/'' @ parsed_name (P (url g)))
                (op_url ?svc op)"
      using op_url_prefix[of ?svc op] s b
      by (simp add: new_BitbucketService_simps(2) getRepoMetadata_simps)
    have urls: "repoURL ?svc =
            ''https://'' @ parsed_host (P (url g)) @ ''/rest/api/1.0/projects/'' @
            parsed_owner (P (url g)) @ ''/repos/'' @ parsed_name (P (url g))"
      "branchesURL ?svc =
            ''https://'' @ parsed_host (P (url g)) @ ''/rest/api/1.0/projects/'' @
            parsed_owner (P (url g)) @ ''/repos/'' @ parsed_name (P (url g)) @ ''/branches''"
      "isServerURL ?svc (isServer ?svc) sp =
            ''https://'' @ parsed_host (P (url g)) @ ''/rest/api/1.0/projects/'' @
            parsed_owner (P (url g)) @ ''/repos/'' @ parsed_name (P (url g)) @ ''/files/'' @
            contextDir (metadata ?svc) @
            (if truthy sp then ''/'' @ template sp else []) @ ''?limit=50&at='' @
            defaultBranch (metadata ?svc)"
      "rawURL ?svc filePath =
            ''https://'' @ parsed_host (P (url g)) @ ''/rest/api/1.0/projects/'' @
            parsed_owner (P (url g)) @ ''/repos/'' @ parsed_name (P (url g)) @ ''/raw/'' @
            filePath @ ''?at='' @ defaultBranch (metadata ?svc)"
      using s b
      by (simp_all add: repoURL_def branchesURL_def isServerURL_def rawURL_def
          new_BitbucketService_simps(2) getRepoMetadata_simps)
    show ?thesis
      using b p urls issued_requests[of _ w ?svc op] by (intro conjI ballI) simp_all
  qed
  have cloud: "baseURL ?svc = ''https://api.bitbucket.org/2.0''
        \<and> (\<forall>rq \<in> set (issued w (world_after ?svc op w)).
              rq_method rq = ''GET'' \<and> rq_url rq = op_url ?svc op \<and>
              prefix (''https://api.bitbucket.org/2.0/repositories/'' @
                      parsed_owner (P (url g)) @ ''/'' @ parsed_name (P (url g)))
                (rq_url rq))"
    if h: "parsed_host (P (url g)) = ''bitbucket.org''"
  proof -
    have b: "baseURL ?svc = ''https://api.bitbucket.org/2.0''"
      and s: "\<not> isServer ?svc"
      using h by (simp_all add: new_BitbucketService_simps)
    have p: "prefix (''https://api.bitbucket.org/2.0/repositories/'' @
                      parsed_owner (P (url g)) @ ''/'' @ parsed_name (P (url g)))
                (op_url ?svc op)"
      using op_url_prefix[of ?svc op] s b
      by (simp add: new_BitbucketService_simps(2) getRepoMetadata_simps)
    show ?thesis
      using b p issued_requests[of _ w ?svc op] by (intro conjI ballI) simp_all
  qed
  show ?thesis
    using mode server cloud by blast
qed


theorem topology_fixed_by_host_witness:
  "parsed_host (example_parser (url server_source)) \<noteq> ''bitbucket.org''
   \<and> isServer (new_BitbucketService example_parser server_source)
   \<and> baseURL (new_BitbucketService example_parser server_source) =
       ''https://git.example.com/rest/api/1.0''
   \<and> issued (answering ''https://git.example.com/'' (error_response 404))
        (world_after (new_BitbucketService example_parser server_source)
           (IsFilePresent ''/Dockerfile'')
           (answering ''https://git.example.com/'' (error_response 404))) =
       [json_request None
          ''https://git.example.com/rest/api/1.0/projects/org/repos/repo/raw/Dockerfile?at=HEAD'']
   \<and> prefix ''https://git.example.com/rest/api/1.0/projects/org/repos/repo''
        ''https://git.example.com/rest/api/1.0/projects/org/repos/repo/raw/Dockerfile?at=HEAD''
   \<and> parsed_host (example_parser (url cloud_source)) = ''bitbucket.org''
   \<and> \<not> isServer (new_BitbucketService example_parser cloud_source)
   \<and> baseURL (new_BitbucketService example_parser cloud_source) =
       ''https://api.bitbucket.org/2.0''
   \<and> issued (answering ''https://git.example.com/'' (error_response 404))
        (world_after (new_BitbucketService example_parser cloud_source) GetRepoBranchList
           (answering ''https://git.example.com/'' (error_response 404))) =
       [json_request None ''https://api.bitbucket.org/2.0/repositories/org/repo/refs/branches'']
   \<and> prefix ''https://api.bitbucket.org/2.0/repositories/org/repo''
        ''https://api.bitbucket.org/2.0/repositories/org/repo/refs/branches''"
proof -
  let ?w = "answering ''https://git.example.com/'' (error_response 404)"
  let ?s = "new_BitbucketService example_parser server_source"
  let ?c = "new_BitbucketService example_parser cloud_source"
  have hs: "parsed_host (example_parser (url server_source)) \<noteq> ''bitbucket.org''"
    and hc: "parsed_host (example_parser (url cloud_source)) = ''bitbucket.org''"
    and ps: "parsed_host (example_parser (url server_source)) = ''git.example.com''"
      "parsed_owner (example_parser (url server_source)) = ''org''"
      "parsed_name (example_parser (url server_source)) = ''repo''"
      "parsed_owner (example_parser (url cloud_source)) = ''org''"
      "parsed_name (example_parser (url cloud_source)) = ''repo''"
    by (simp_all add: example_parser_def server_source_def cloud_source_def)
  have sent_s: "issued ?w (world_after ?s (IsFilePresent ''/Dockerfile'') ?w) =
       [json_request None
          ''https://git.example.com/rest/api/1.0/projects/org/repos/repo/raw/Dockerfile?at=HEAD'']"
    unfolding issued_world_after
    using server_service_simps[unfolded server_service_def]
    by (simp add: rawURL_def)
  have sent_c: "issued ?w (world_after ?c GetRepoBranchList ?w) =
       [json_request None ''https://api.bitbucket.org/2.0/repositories/org/repo/refs/branches'']"
    unfolding issued_world_after
    using getAuthProvider_cloud_service[unfolded cloud_service_def]
      branchesURL_cloud_service[unfolded cloud_service_def]
    by simp
  note s = topology_fixed_by_host[of example_parser server_source ?w "IsFilePresent ''/Dockerfile''",
      THEN conjunct2, THEN conjunct1, rule_format, OF hs]
  note c = topology_fixed_by_host[of example_parser cloud_source ?w GetRepoBranchList,
      THEN conjunct2, THEN conjunct2, rule_format, OF hc]
  note m = topology_fixed_by_host[of example_parser server_source, THEN conjunct1]
    topology_fixed_by_host[of example_parser cloud_source, THEN conjunct1]
  have a1: "isServer ?s" and a2: "\<not> isServer ?c"
    using m hs hc by simp_all
  have b1: "baseURL ?s = ''https://git.example.com/rest/api/1.0''"
    using s[THEN conjunct1] ps by simp
  have b2: "baseURL ?c = ''https://api.bitbucket.org/2.0''"
    using c[THEN conjunct1] .
  have p1: "prefix ''https://git.example.com/rest/api/1.0/projects/org/repos/repo''
        ''https://git.example.com/rest/api/1.0/projects/org/repos/repo/raw/Dockerfile?at=HEAD''"
  proof -
    have "json_request None
          ''https://git.example.com/rest/api/1.0/projects/org/repos/repo/raw/Dockerfile?at=HEAD''
        \<in> set (issued ?w (world_after ?s (IsFilePresent ''/Dockerfile'') ?w))"
      unfolding sent_s by simp
    with s[THEN conjunct2, THEN conjunct1]
    have "prefix (''https://'' @ parsed_host (example_parser (url server_source)) @
            ''/rest/api/1.0/projects/'' @ parsed_owner (example_parser (url server_source)) @
            ''/repos/'' @ parsed_name (example_parser (url server_source)))
          (rq_url (json_request None
          ''https://git.example.com/rest/api/1.0/projects/org/repos/repo/raw/Dockerfile?at=HEAD''))"
      by blast
    then show ?thesis
      unfolding ps by (simp add: json_request_def)
  qed
  have p2: "prefix ''https://api.bitbucket.org/2.0/repositories/org/repo''
        ''https://api.bitbucket.org/2.0/repositories/org/repo/refs/branches''"
  proof -
    have "json_request None ''https://api.bitbucket.org/2.0/repositories/org/repo/refs/branches''
        \<in> set (issued ?w (world_after ?c GetRepoBranchList ?w))"
      unfolding sent_c by simp
    with c[THEN conjunct2]
    have "prefix (''https://api.bitbucket.org/2.0/repositories/'' @
            parsed_owner (example_parser (url cloud_source)) @ ''/'' @
            parsed_name (example_parser (url cloud_source)))
          (rq_url (json_request None
             ''https://api.bitbucket.org/2.0/repositories/org/repo/refs/branches''))"
      by blast
    then show ?thesis
      unfolding ps by (simp add: json_request_def)
  qed
  show ?thesis
    by (intro conjI hs hc a1 a2 b1 b2 sent_s sent_c p1 p2)
qed

lemma op_url_branch_scoped:
  assumes "branch_scoped op"
  shows "isServer this \<Longrightarrow> suffix (''at='' @ defaultBranch (metadata this)) (op_url this op)"
    and "\<not> isServer this \<Longrightarrow>
         prefix (baseURL this @ ''/repositories/'' @ owner (metadata this) @ ''/'' @
                 repoName (metadata this) @ ''/src/'' @ defaultBranch (metadata this) @ ''/'')
           (op_url this op)"
proof -
  show "suffix (''at='' @ defaultBranch (metadata this)) (op_url this op)" if "isServer this"
    using assms that
    by (cases op)
      (auto simp add: isServerURL_def rawURL_def intro!: suffix_appendI suffix_ConsI)
  show "prefix (baseURL this @ ''/repositories/'' @ owner (metadata this) @ ''/'' @
                 repoName (metadata this) @ ''/src/'' @ defaultBranch (metadata this) @ ''/'')
           (op_url this op)" if "\<not> isServer this"
    using assms that
    by (cases op) (simp_all add: isServerURL_def rawURL_def)
qed

text \<open>
  C9. When the source descriptor has no ref, the default branch of the repository metadata
  is the string \<open>HEAD\<close>, and that value is the branch of every branch-scoped request the
  adapter issues: in self-hosted mode the file listing ends with \<open>?limit=50&at=HEAD\<close> and
  the raw file URL with \<open>?at=HEAD\<close>; in SaaS mode both continue the repository path with
  \<open>/src/HEAD/\<close>.
\<close>

theorem default_branch_HEAD:
  "ref g = None \<longrightarrow>
     defaultBranch (metadata (new_BitbucketService P g)) = ''HEAD''
     \<and> (branch_scoped op \<longrightarrow>
          (\<forall>rq \<in> set (issued w (world_after (new_BitbucketService P g) op w)).
             rq_url rq = op_url (new_BitbucketService P g) op \<and>
             (if isServer (new_BitbucketService P g)
              then suffix ''at=HEAD'' (rq_url rq)
              else prefix (''https://api.bitbucket.org/2.0/repositories/'' @
                           parsed_owner (P (url g)) @ ''/'' @ parsed_name (P (url g)) @
                           ''/src/HEAD/'')
                     (rq_url rq))))
     \<and> isServerURL (new_BitbucketService P g) True sp =
         baseURL (new_BitbucketService P g) @ ''/projects/'' @ parsed_owner (P (url g)) @
         ''/repos/'' @ parsed_name (P (url g)) @ ''/files/'' @
         contextDir (metadata (new_BitbucketService P g)) @
         (if truthy sp then ''/'' @ template sp else []) @ ''?limit=50&at=HEAD''
     \<and> isServerURL (new_BitbucketService P g) False sp =
         baseURL (new_BitbucketService P g) @ ''/repositories/'' @ parsed_owner (P (url g)) @
         ''/'' @ parsed_name (P (url g)) @ ''/src/HEAD/'' @
         contextDir (metadata (new_BitbucketService P g)) @
         (if truthy sp then ''/'' @ template sp else []) @ ''?pagelen=50''
     \<and> rawURL (new_BitbucketService P g) filePath =
         (if isServer (new_BitbucketService P g)
          then baseURL (new_BitbucketService P g) @ ''/projects/'' @ parsed_owner (P (url g)) @
               ''/repos/'' @ parsed_name (P (url g)) @ ''/raw/'' @ filePath @ ''?at=HEAD''
          else baseURL (new_BitbucketService P g) @ ''/repositories/'' @
               parsed_owner (P (url g)) @ ''/'' @ parsed_name (P (url g)) @ ''/src/HEAD/'' @
               filePath)"
proof
  let ?svc = "new_BitbucketService P g"
  assume r: "ref g = None"
  have head: "defaultBranch (metadata ?svc) = ''HEAD''"
    by (simp add: new_BitbucketService_simps(2) getRepoMetadata_simps r)
  have meta: "owner (metadata ?svc) = parsed_owner (P (url g))"
    "repoName (metadata ?svc) = parsed_name (P (url g))"
    by (simp_all add: new_BitbucketService_simps(2) getRepoMetadata_simps)
  have scoped: "rq_url rq = op_url ?svc op \<and>
             (if isServer ?svc then suffix ''at=HEAD'' (rq_url rq)
              else prefix (''https://api.bitbucket.org/2.0/repositories/'' @
                           parsed_owner (P (url g)) @ ''/'' @ parsed_name (P (url g)) @
                           ''/src/HEAD/'')
                     (rq_url rq))"
    if b: "branch_scoped op" and rq: "rq \<in> set (issued w (world_after ?svc op w))" for rq
  proof (cases "isServer ?svc")
    case True
    then show ?thesis
      using op_url_branch_scoped(1)[OF b True] issued_requests[OF rq] by (simp add: head)
  next
    case False
    then have "baseURL ?svc = ''https://api.bitbucket.org/2.0''"
      by (simp add: new_BitbucketService_simps)
    then show ?thesis
      using op_url_branch_scoped(2)[OF b False] issued_requests[OF rq] False
      by (simp add: head meta)
  qed
  have files: "isServerURL ?svc True sp =
         baseURL ?svc @ ''/projects/'' @ parsed_owner (P (url g)) @
         ''/repos/'' @ parsed_name (P (url g)) @ ''/files/'' @ contextDir (metadata ?svc) @
         (if truthy sp then ''/'' @ template sp else []) @ ''?limit=50&at=HEAD''"
    "isServerURL ?svc False sp =
         baseURL ?svc @ ''/repositories/'' @ parsed_owner (P (url g)) @
         ''/'' @ parsed_name (P (url g)) @ ''/src/HEAD/'' @ contextDir (metadata ?svc) @
         (if truthy sp then ''/'' @ template sp else []) @ ''?pagelen=50''"
    by (simp_all add: isServerURL_def head meta)
  have raw: "rawURL ?svc filePath =
         (if isServer ?svc
          then baseURL ?svc @ ''/projects/'' @ parsed_owner (P (url g)) @
               ''/repos/'' @ parsed_name (P (url g)) @ ''/raw/'' @ filePath @ ''?at=HEAD''
          else baseURL ?svc @ ''/repositories/'' @
               parsed_owner (P (url g)) @ ''/'' @ parsed_name (P (url g)) @ ''/src/HEAD/'' @
               filePath)"
    by (simp add: rawURL_def head meta)
  show "defaultBranch (metadata ?svc) = ''HEAD''
     \<and> (branch_scoped op \<longrightarrow>
          (\<forall>rq \<in> set (issued w (world_after ?svc op w)).
             rq_url rq = op_url ?svc op \<and>
             (if isServer ?svc
              then suffix ''at=HEAD'' (rq_url rq)
              else prefix (''https://api.bitbucket.org/2.0/repositories/'' @
                           parsed_owner (P (url g)) @ ''/'' @ parsed_name (P (url g)) @
                           ''/src/HEAD/'')
                     (rq_url rq))))
     \<and> isServerURL ?svc True sp =
         baseURL ?svc @ ''/projects/'' @ parsed_owner (P (url g)) @
         ''/repos/'' @ parsed_name (P (url g)) @ ''/files/'' @ contextDir (metadata ?svc) @
         (if truthy sp then ''/'' @ template sp else []) @ ''?limit=50&at=HEAD''
     \<and> isServerURL ?svc False sp =
         baseURL ?svc @ ''/repositories/'' @ parsed_owner (P (url g)) @
         ''/'' @ parsed_name (P (url g)) @ ''/src/HEAD/'' @ contextDir (metadata ?svc) @
         (if truthy sp then ''/'' @ template sp else []) @ ''?pagelen=50''
     \<and> rawURL ?svc filePath =
         (if isServer ?svc
          then baseURL ?svc @ ''/projects/'' @ parsed_owner (P (url g)) @
               ''/repos/'' @ parsed_name (P (url g)) @ ''/raw/'' @ filePath @ ''?at=HEAD''
          else baseURL ?svc @ ''/repositories/'' @
               parsed_owner (P (url g)) @ ''/'' @ parsed_name (P (url g)) @ ''/src/HEAD/'' @
               filePath)"
    using head scoped files raw by (intro conjI impI ballI) blast+
qed


theorem default_branch_HEAD_witness:
  "ref server_source = None
   \<and> defaultBranch (metadata (new_BitbucketService example_parser server_source)) = ''HEAD''
   \<and> branch_scoped (GetRepoFileList None)
   \<and> issued (answering ''https://git.example.com/'' (error_response 404))
        (world_after (new_BitbucketService example_parser server_source) (GetRepoFileList None)
           (answering ''https://git.example.com/'' (error_response 404))) =
       [json_request None
          ''https://git.example.com/rest/api/1.0/projects/org/repos/repo/files/?limit=50&at=HEAD'']
   \<and> suffix ''at=HEAD''
        ''https://git.example.com/rest/api/1.0/projects/org/repos/repo/files/?limit=50&at=HEAD''
   \<and> rawURL (new_BitbucketService example_parser server_source) ''Dockerfile'' =
       ''https://git.example.com/rest/api/1.0/projects/org/repos/repo/raw/Dockerfile?at=HEAD''
   \<and> ref (cloud_source\<lparr>ref := None\<rparr>) = None
   \<and> rawURL (new_BitbucketService example_parser (cloud_source\<lparr>ref := None\<rparr>))
        ''Dockerfile'' =
       ''https://api.bitbucket.org/2.0/repositories/org/repo/src/HEAD/Dockerfile''
   \<and> isServerURL (new_BitbucketService example_parser (cloud_source\<lparr>ref := None\<rparr>)) False
        (Some ''src'') =
       ''https://api.bitbucket.org/2.0/repositories/org/repo/src/HEAD//src?pagelen=50''"
proof -
  let ?w = "answering ''https://git.example.com/'' (error_response 404)"
  let ?s = "new_BitbucketService example_parser server_source"
  let ?g = "cloud_source\<lparr>ref := None\<rparr>"
  let ?c = "new_BitbucketService example_parser ?g"
  have rs: "ref server_source = None" and rc: "ref ?g = None"
    by (simp_all add: server_source_def)
  have ps: "parsed_owner (example_parser (url server_source)) = ''org''"
      "parsed_name (example_parser (url server_source)) = ''repo''"
      "parsed_owner (example_parser (url ?g)) = ''org''"
      "parsed_name (example_parser (url ?g)) = ''repo''"
    by (simp_all add: example_parser_def)
  have facts: "isServer ?s" "baseURL ?s = ''https://git.example.com/rest/api/1.0''"
    "\<not> isServer ?c" "baseURL ?c = ''https://api.bitbucket.org/2.0''"
    "contextDir (metadata ?c) = []"
    by (simp_all add: new_BitbucketService_simps getRepoMetadata_simps example_parser_def
        server_source_def cloud_source_def)
  have scoped: "branch_scoped (GetRepoFileList None)" by simp
  have sent_s: "issued ?w (world_after ?s (GetRepoFileList None) ?w) =
       [json_request None
          ''https://git.example.com/rest/api/1.0/projects/org/repos/repo/files/?limit=50&at=HEAD'']"
    unfolding issued_world_after
    using server_service_simps(7)[unfolded server_service_def]
      files_url_server_service[unfolded server_service_def]
    by simp
  note s = default_branch_HEAD[of server_source example_parser "GetRepoFileList None" ?w,
      rule_format, OF rs]
  note c = default_branch_HEAD[of ?g example_parser _ _ "Some ''src''" "''Dockerfile''",
      rule_format, OF rc]
  have head: "defaultBranch (metadata ?s) = ''HEAD''"
    using s[THEN conjunct1] .
  have suf: "suffix ''at=HEAD''
        ''https://git.example.com/rest/api/1.0/projects/org/repos/repo/files/?limit=50&at=HEAD''"
  proof -
    have "json_request None
          ''https://git.example.com/rest/api/1.0/projects/org/repos/repo/files/?limit=50&at=HEAD''
        \<in> set (issued ?w (world_after ?s (GetRepoFileList None) ?w))"
      unfolding sent_s by simp
    with s[THEN conjunct2, THEN conjunct1, rule_format, OF scoped] facts(1)
    have "suffix ''at=HEAD'' (rq_url (json_request None
          ''https://git.example.com/rest/api/1.0/projects/org/repos/repo/files/?limit=50&at=HEAD''))"
      by (metis (full_types))
    then show ?thesis by (simp add: json_request_def)
  qed
  have raw_s: "rawURL ?s ''Dockerfile'' =
       ''https://git.example.com/rest/api/1.0/projects/org/repos/repo/raw/Dockerfile?at=HEAD''"
    using s[THEN conjunct2, THEN conjunct2, THEN conjunct2, THEN conjunct2, of "''Dockerfile''"]
    by (simp add: facts ps)
  have raw_c: "rawURL ?c ''Dockerfile'' =
       ''https://api.bitbucket.org/2.0/repositories/org/repo/src/HEAD/Dockerfile''"
    using c[THEN conjunct2, THEN conjunct2, THEN conjunct2, THEN conjunct2] facts(3,4)
    unfolding ps by simp
  have files_c: "isServerURL ?c False (Some ''src'') =
       ''https://api.bitbucket.org/2.0/repositories/org/repo/src/HEAD//src?pagelen=50''"
    using c[THEN conjunct2, THEN conjunct2, THEN conjunct2, THEN conjunct1] facts(3,4,5)
    unfolding ps by simp
  show ?thesis
    by (intro conjI rs rc head scoped sent_s suf raw_s raw_c files_c)
qed

section \<open>The fetch contract\<close>

text \<open>
  C5, the claim as stated fails: a success response declared as plain text with a character
  set (\<open>Content-Type: text/plain; charset=utf-8\<close>) is not delivered as text. The header
  is compared with the exact string \<open>text/plain\<close>, the body goes to the JSON parser, and
  here, where it is no JSON, the routine fails.
\<close>

theorem fetchJson_charset_counterexample:
  "ok charset_text_response
   \<and> content_type charset_text_response = Some ''text/plain; charset=utf-8''
   \<and> body_text charset_text_response = Some ''FROM node:18''
   \<and> fst (fetchJson cloud_service ''https://api.bitbucket.org/2.0/repositories/org/repo/src/main/Dockerfile''
          (answering ''https://api.bitbucket.org/2.0/repositories/org/repo/src/main/Dockerfile''
             charset_text_response)) = Inl (Thrown_Error SyntaxError)"
proof -
  have a: "ok charset_text_response"
    and b: "content_type charset_text_response = Some ''text/plain; charset=utf-8''"
    and c: "body_text charset_text_response = Some ''FROM node:18''"
    and d: "body_json charset_text_response = None"
    by (simp_all add: charset_text_response_def ok_def)
  show ?thesis
    by (simp add: fetchJson_answering[OF getAuthProvider_cloud_service] a b c d)
qed

text \<open>
  C5, amended. The fetch routine issues one GET for the URL, with the header \<open>Accept:
  application/json\<close> followed by the derived auth headers. When the response's status is
  not a success the routine fails with the response itself, whose status the caller can
  read. When it is a success, the routine delivers the body as text if the
  \<open>Content-Type\<close> header is exactly \<open>text/plain\<close>; for every other header value it
  delivers the JSON value parsed from the body, and fails if the body is not valid JSON.
\<close>

theorem fetchJson_contract:
  "getAuthProvider this = Inr auth \<longrightarrow>
     issued w (snd (fetchJson this u w)) =
       [\<lparr>rq_url = u, rq_method = ''GET'',
         rq_headers = (''Accept'', ''application/json'') #
                      (case auth of None \<Rightarrow> [] | Some hs \<Rightarrow> hs)\<rparr>]
     \<and> (\<forall>r. respond w (json_request auth u) = Some r \<longrightarrow> \<not> ok r \<longrightarrow>
            fst (fetchJson this u w) = Inl (Thrown_Response r) \<and>
            thrown_status (Thrown_Response r) = Some (status r))
     \<and> (\<forall>r s. respond w (json_request auth u) = Some r \<longrightarrow> ok r \<longrightarrow>
            content_type r = Some ''text/plain'' \<longrightarrow> body_text r = Some s \<longrightarrow>
            fst (fetchJson this u w) = Inr (JString s))
     \<and> (\<forall>r j. respond w (json_request auth u) = Some r \<longrightarrow> ok r \<longrightarrow>
            content_type r \<noteq> Some ''text/plain'' \<longrightarrow> body_json r = Some j \<longrightarrow>
            fst (fetchJson this u w) = Inr j)
     \<and> (\<forall>r. respond w (json_request auth u) = Some r \<longrightarrow> ok r \<longrightarrow>
            content_type r \<noteq> Some ''text/plain'' \<longrightarrow> body_json r = None \<longrightarrow>
            fst (fetchJson this u w) = Inl (Thrown_Error SyntaxError))"
  using fetchJson_issued[of w this u] fetchJson_result[of this auth u w]
  by (auto simp add: json_request_def)

theorem fetchJson_contract_witness:
  "getAuthProvider cloud_service = Inr None
   \<and> issued (answering ''https://host/x'' (error_response 404))
        (snd (fetchJson cloud_service ''https://host/x''
           (answering ''https://host/x'' (error_response 404)))) =
       [\<lparr>rq_url = ''https://host/x'', rq_method = ''GET'',
         rq_headers = [(''Accept'', ''application/json'')]\<rparr>]
   \<and> fst (fetchJson cloud_service ''https://host/x''
          (answering ''https://host/x'' (error_response 404))) =
       Inl (Thrown_Response (error_response 404))
   \<and> fst (fetchJson cloud_service ''https://host/x''
          (answering ''https://host/x''
             \<lparr>status = 200, content_type = Some ''text/plain'', body_text = Some ''FROM node:18'',
              body_json = None\<rparr>)) =
       Inr (JString ''FROM node:18'')
   \<and> fst (fetchJson cloud_service ''https://host/x''
          (answering ''https://host/x'' (json_response ''{}'' (JObject [])))) =
       Inr (JObject [])
   \<and> fst (fetchJson cloud_service ''https://host/x''
          (answering ''https://host/x'' malformed_response)) =
       Inl (Thrown_Error SyntaxError)"
  using getAuthProvider_cloud_service
    fetchJson_contract[of cloud_service None "answering ''https://host/x'' (error_response 404)"
      "''https://host/x''"]
    fetchJson_contract[of cloud_service None
      "answering ''https://host/x''
             \<lparr>status = 200, content_type = Some ''text/plain'', body_text = Some ''FROM node:18'',
              body_json = None\<rparr>" "''https://host/x''"]
    fetchJson_contract[of cloud_service None
      "answering ''https://host/x'' (json_response ''{}'' (JObject []))" "''https://host/x''"]
    fetchJson_contract[of cloud_service None
      "answering ''https://host/x'' malformed_response" "''https://host/x''"]
  by (simp add: answering_def json_request_def error_response_def json_response_def ok_def
      malformed_response_def)

section \<open>The derivation of the auth headers\<close>

lemma decoded_bytes_encode: "decoded_bytes (Base64_encode s) = Inr (map of_char s)"
proof -
  have "list_all (\<lambda>b. b < 256) (map of_char s :: nat list)"
    by (simp add: list_all_iff)
  then show ?thesis
    by (simp add: decoded_bytes_def Base64_encode_def atob_btoa)
qed

lemma Base64_decode_plain:
  "decoded_bytes s = Inr bs \<Longrightarrow> plain_utf8 bs \<Longrightarrow> Base64_decode s = Inr (map char_of bs)"
  by (simp add: Base64_decode_def utf8_text_def)

lemma Base64_decode_encode:
  "plain_utf8 (map of_char s) \<Longrightarrow> Base64_decode (Base64_encode s) = Inr s"
  by (simp add: Base64_decode_plain[OF decoded_bytes_encode] comp_def)

lemma getAuthProvider_basic:
  "secretType (gitsource this) = Some BASIC_AUTH \<Longrightarrow>
   secretContent (gitsource this) = Some sc \<Longrightarrow>
   Base64_decode (username sc) = Inr u \<Longrightarrow> Base64_decode (password sc) = Inr p \<Longrightarrow>
   getAuthProvider this =
     Inr (Some [(''Authorization'', ''Basic '' @ Base64_encode (u @ '':'' @ p))])"
  by (simp add: getAuthProvider_def)

text \<open>
  C4. The auth headers are a function of the auth descriptor alone (the secret kind and the
  secret content of the source descriptor). For basic auth the stored username and password
  are base64-decoded and the string \<open>username:password\<close> is encoded again as one token of
  the \<open>Authorization: Basic\<close> header: when the stored values stand for the bytes of two
  texts (well-formed UTF-8 without a byte-order mark, on which every version of the codec
  agrees), the token is the encoding of the first text, a colon and the second; so a
  username and a password stored as the encodings of \<open>user\<close> and \<open>pass\<close> give the encoding
  of \<open>user:pass\<close>, and \<open>dXNlcg==\<close> with \<open>cGFzcw==\<close> gives \<open>Basic dXNlcjpwYXNz\<close>. For
  every other kind, and for no kind, there are no auth headers, and the request carries the
  \<open>Accept\<close> header alone.
\<close>

theorem getAuthProvider_derivation:
  "(secretType (gitsource this) = Some BASIC_AUTH \<longrightarrow>
      secretContent (gitsource this) = Some sc \<longrightarrow>
      decoded_bytes (username sc) = Inr ub \<longrightarrow> plain_utf8 ub \<longrightarrow>
      decoded_bytes (password sc) = Inr pb \<longrightarrow> plain_utf8 pb \<longrightarrow>
      getAuthProvider this =
        Inr (Some [(''Authorization'',
                    ''Basic '' @ Base64_encode (map char_of ub @ '':'' @ map char_of pb))]))
   \<and> (secretType (gitsource this) = Some BASIC_AUTH \<longrightarrow>
      secretContent (gitsource this) =
        Some \<lparr>username = Base64_encode user, password = Base64_encode pass\<rparr> \<longrightarrow>
      plain_utf8 (map of_char user) \<longrightarrow> plain_utf8 (map of_char pass) \<longrightarrow>
      getAuthProvider this =
        Inr (Some [(''Authorization'', ''Basic '' @ Base64_encode (user @ '':'' @ pass))]))
   \<and> (secretType (gitsource this) = Some BASIC_AUTH \<longrightarrow>
      secretContent (gitsource this) =
        Some \<lparr>username = ''dXNlcg=='', password = ''cGFzcw==''\<rparr> \<longrightarrow>
      getAuthProvider this = Inr (Some [(''Authorization'', ''Basic dXNlcjpwYXNz'')]))
   \<and> (secretType (gitsource this) \<noteq> Some BASIC_AUTH \<longrightarrow>
      getAuthProvider this = Inr None \<and>
      rq_headers (json_request None url0) = [(''Accept'', ''application/json'')])
   \<and> (secretType (gitsource this) = secretType (gitsource that) \<longrightarrow>
      secretContent (gitsource this) = secretContent (gitsource that) \<longrightarrow>
      getAuthProvider this = getAuthProvider that)"
proof -
  have ub: "decoded_bytes ''dXNlcg=='' = Inr [117, 115, 101, 114]" by code_simp
  have pb: "decoded_bytes ''cGFzcw=='' = Inr [112, 97, 115, 115]" by code_simp
  have plain: "plain_utf8 [117, 115, 101, 114]" "plain_utf8 [112, 97, 115, 115]"
    by (simp_all add: plain_utf8_def)
  have chars: "map char_of [117, 115, 101, 114 :: nat] = ''user''"
    "map char_of [112, 97, 115, 115 :: nat] = ''pass''"
    by code_simp+
  have user: "Base64_decode ''dXNlcg=='' = Inr ''user''"
    using Base64_decode_plain[OF ub plain(1)] by (simp only: chars)
  have pass: "Base64_decode ''cGFzcw=='' = Inr ''pass''"
    using Base64_decode_plain[OF pb plain(2)] by (simp only: chars)
  have token: "Base64_encode ''user:pass'' = ''dXNlcjpwYXNz''" by code_simp
  have decoded: "getAuthProvider this =
        Inr (Some [(''Authorization'',
                    ''Basic '' @ Base64_encode (map char_of ub @ '':'' @ map char_of pb))])"
    if "secretType (gitsource this) = Some BASIC_AUTH" "secretContent (gitsource this) = Some sc"
      "decoded_bytes (username sc) = Inr ub" "plain_utf8 ub"
      "decoded_bytes (password sc) = Inr pb" "plain_utf8 pb"
    using getAuthProvider_basic[OF that(1,2) Base64_decode_plain[OF that(3,4)]
        Base64_decode_plain[OF that(5,6)]] .
  have stored: "getAuthProvider this =
        Inr (Some [(''Authorization'', ''Basic '' @ Base64_encode (user @ '':'' @ pass))])"
    if "secretType (gitsource this) = Some BASIC_AUTH"
      "secretContent (gitsource this) =
        Some \<lparr>username = Base64_encode user, password = Base64_encode pass\<rparr>"
      "plain_utf8 (map of_char user)" "plain_utf8 (map of_char pass)"
    using getAuthProvider_basic[OF that(1,2), of user pass] that(3,4)
    by (simp add: Base64_decode_encode)
  have example: "getAuthProvider this = Inr (Some [(''Authorization'', ''Basic dXNlcjpwYXNz'')])"
    if "secretType (gitsource this) = Some BASIC_AUTH"
      "secretContent (gitsource this) =
        Some \<lparr>username = ''dXNlcg=='', password = ''cGFzcw==''\<rparr>"
    using getAuthProvider_basic[OF that(1,2), of "''user''" "''pass''"] user pass token
    by simp
  have other: "getAuthProvider this = Inr None"
    if "secretType (gitsource this) \<noteq> Some BASIC_AUTH"
    using that by (simp add: getAuthProvider_def split: option.splits SecretType.splits)
  have pure: "getAuthProvider this = getAuthProvider that"
    if "secretType (gitsource this) = secretType (gitsource that)"
      "secretContent (gitsource this) = secretContent (gitsource that)"
    unfolding getAuthProvider_def that by (rule refl)
  show ?thesis
    using decoded stored example other pure
    by (simp add: json_request_def)
qed

theorem getAuthProvider_derivation_witness:
  "secretType (gitsource (new_BitbucketService example_parser basic_auth_source)) = Some BASIC_AUTH
   \<and> secretContent (gitsource (new_BitbucketService example_parser basic_auth_source)) =
       Some \<lparr>username = ''dXNlcg=='', password = ''cGFzcw==''\<rparr>
   \<and> decoded_bytes ''dXNlcg=='' = Inr [117, 115, 101, 114]
   \<and> plain_utf8 [117, 115, 101, 114]
   \<and> decoded_bytes ''cGFzcw=='' = Inr [112, 97, 115, 115]
   \<and> plain_utf8 [112, 97, 115, 115]
   \<and> Base64_encode ''user'' = ''dXNlcg==''
   \<and> Base64_encode ''pass'' = ''cGFzcw==''
   \<and> plain_utf8 (map of_char ''user'')
   \<and> plain_utf8 (map of_char ''pass'')
   \<and> getAuthProvider (new_BitbucketService example_parser basic_auth_source) =
       Inr (Some [(''Authorization'', ''Basic dXNlcjpwYXNz'')])
   \<and> secretType (gitsource cloud_service) \<noteq> Some BASIC_AUTH
   \<and> getAuthProvider cloud_service = Inr None"
proof -
  let ?b = "new_BitbucketService example_parser basic_auth_source"
  have a: "secretType (gitsource ?b) = Some BASIC_AUTH"
    and b: "secretContent (gitsource ?b) =
       Some \<lparr>username = ''dXNlcg=='', password = ''cGFzcw==''\<rparr>"
    and c: "secretType (gitsource cloud_service) \<noteq> Some BASIC_AUTH"
    by (simp_all add: new_BitbucketService_def basic_auth_source_def cloud_source_def
        cloud_service_def Let_def)
  have ub: "decoded_bytes ''dXNlcg=='' = Inr [117, 115, 101, 114]" by code_simp
  have pb: "decoded_bytes ''cGFzcw=='' = Inr [112, 97, 115, 115]" by code_simp
  have plain: "plain_utf8 [117, 115, 101, 114]" "plain_utf8 [112, 97, 115, 115]"
    "plain_utf8 (map of_char ''user'')" "plain_utf8 (map of_char ''pass'')"
    by (simp_all add: plain_utf8_def)
  have enc: "Base64_encode ''user'' = ''dXNlcg==''" "Base64_encode ''pass'' = ''cGFzcw==''"
    "Base64_encode ''user:pass'' = ''dXNlcjpwYXNz''"
    by code_simp+
  have chars: "map char_of [117, 115, 101, 114 :: nat] = ''user''"
    "map char_of [112, 97, 115, 115 :: nat] = ''pass''"
    by code_simp+
  have h1: "getAuthProvider ?b = Inr (Some [(''Authorization'', ''Basic dXNlcjpwYXNz'')])"
    using getAuthProvider_derivation[of ?b "\<lparr>username = ''dXNlcg=='', password = ''cGFzcw==''\<rparr>"
        "[117, 115, 101, 114]" "[112, 97, 115, 115]", THEN conjunct1, rule_format, OF a b _ plain(1) _ plain(2)]
      ub pb
    unfolding chars by (simp add: enc(3))
  have h2: "getAuthProvider ?b = Inr (Some [(''Authorization'', ''Basic dXNlcjpwYXNz'')])"
    using getAuthProvider_derivation[of ?b _ _ _ "''user''" "''pass''",
        THEN conjunct2, THEN conjunct1, rule_format] a b plain(3,4) enc
    by simp
  have h3: "getAuthProvider cloud_service = Inr None"
    using getAuthProvider_derivation[of cloud_service, THEN conjunct2, THEN conjunct2,
        THEN conjunct2, THEN conjunct1, rule_format, OF c]
    by simp
  show ?thesis
    by (intro conjI a b ub pb plain enc(1,2) h1 c h3)
qed

section \<open>The list operations on every body\<close>

lemma read_prop_get_prop: "b \<noteq> JNull \<Longrightarrow> get_prop b k = Inr (read_prop k b)"
  by (cases b) (simp_all add: read_prop_def)

lemma map_thrown_reads:
  "JNull \<notin> set xs \<Longrightarrow>
   map_thrown (\<lambda>b. js_get b k) (map JVal xs) = Inr (map (read_prop k) xs)"
  by (induction xs) (auto simp add: read_prop_get_prop)

lemma map_thrown_null:
  "JNull \<in> set xs \<Longrightarrow> \<exists>e. map_thrown (\<lambda>b. js_get b k) (map JVal xs) = Inl e"
proof (induction xs)
  case Nil
  then show ?case by simp
next
  case (Cons x xs)
  show ?case
  proof (cases "x = JNull")
    case True
    then show ?thesis by simp
  next
    case False
    with Cons obtain e where "map_thrown (\<lambda>b. js_get b k) (map JVal xs) = Inl e" by auto
    with False show ?thesis by (simp add: read_prop_get_prop)
  qed
qed

lemma call_map_array:
  "call_map (JVal (JArray xs)) cb = map_thrown cb (map JVal xs)"
  by (simp add: call_map_def)

text \<open>
  Unless the body is an object whose \<open>values\<close> is an array, reading \<open>data.values\<close> throws,
  or gives something on which \<open>map\<close> cannot be called.
\<close>

lemma values_not_array:
  assumes "\<forall>kvs xs. data = JObject kvs \<longrightarrow> map_of kvs ''values'' \<noteq> Some (JArray xs)"
  shows "(\<exists>e. get_prop data ''values'' = Inl e) \<or>
         (\<exists>v. get_prop data ''values'' = Inr v \<and> (\<exists>e. call_map v cb = Inl e) \<and>
              (\<forall>xs. v \<noteq> JVal (JArray xs)))"
proof (cases data)
  case (JObject kvs)
  show ?thesis
  proof (cases "map_of kvs ''values''")
    case None
    with JObject show ?thesis by (simp add: call_map_def)
  next
    case (Some j)
    with JObject assms have "\<forall>xs. j \<noteq> JArray xs" by simp
    with JObject Some show ?thesis by (cases j) (simp_all add: call_map_def)
  qed
qed (simp_all add: call_map_def)

lemma fetchJson_server_json:
  "fst (fetchJson server_service u (answering u (json_response t j))) = Inr j"
  by (simp add: fetchJson_answering[OF server_service_simps(7)] ok_fixtures)
    (simp add: json_response_def)

text \<open>
  C3, the claim as stated fails for a response body of unexpected shape: a branch listing
  whose entry has no \<open>name\<close> gives the one-element list holding \<open>undefined\<close>.
\<close>

theorem list_operations_nonempty_counterexample:
  "ok unnamed_branches
   \<and> body_json unnamed_branches = Some (JObject [(''values'', JArray [JObject []])])
   \<and> fst (getRepoBranchList cloud_service
          (answering ''https://api.bitbucket.org/2.0/repositories/org/repo/refs/branches''
             unnamed_branches)) = Inr [JUndefined]"
proof -
  have a: "ok unnamed_branches" by (simp add: unnamed_branches_def ok_fixtures)
  have j: "body_json unnamed_branches = Some (JObject [(''values'', JArray [JObject []])])"
    by (simp add: unnamed_branches_def json_response_def)
  have b: "fst (fetchJson cloud_service
          ''https://api.bitbucket.org/2.0/repositories/org/repo/refs/branches''
          (answering ''https://api.bitbucket.org/2.0/repositories/org/repo/refs/branches''
             unnamed_branches)) = Inr (JObject [(''values'', JArray [JObject []])])"
    unfolding unnamed_branches_def by (rule fetchJson_cloud_json)
  show ?thesis
    using a j by (simp add: getRepoBranchList_fst branchesURL_cloud_service b call_map_def)
qed

text \<open>
  C3, amended. No list operation (branch list, file list, language list) ever lets an
  exception escape: each returns a value on every input and every outcome of the fetch.
  Each returns an empty list whenever the fetch routine fails (a transport failure, a
  status that is not a success, a body that cannot be read or parsed, auth headers that
  cannot be derived), and whenever reading the body throws: on the body \<open>null\<close>, and, for
  the branch list and the SaaS file list, on a \<open>values\<close> that is absent or not an array
  and on an array with a \<open>null\<close> entry. On every other body the result is what the
  mapping yields, which need not be empty: the branch list holds the \<open>name\<close> of every
  entry and the SaaS file list the \<open>path\<close> of every entry (\<open>undefined\<close> where an entry has
  none), the self-hosted file list is \<open>data.values\<close> as it is, and the language list holds
  \<open>data.language\<close> alone.
\<close>

theorem list_operations_degrade:
  "(\<exists>branches. fst (getRepoBranchList this w) = Inr branches)
   \<and> (\<exists>files. fst (getRepoFileList this sp w) = Inr files)
   \<and> (\<exists>languages. fst (getRepoLanguageList this w) = Inr languages)
   \<and> (getAuthProvider this = Inr auth \<longrightarrow>
        failing (respond w (json_request auth (branchesURL this))) \<longrightarrow>
        fst (getRepoBranchList this w) = Inr [])
   \<and> (getAuthProvider this = Inr auth \<longrightarrow>
        failing (respond w (json_request auth (op_url this (GetRepoFileList sp)))) \<longrightarrow>
        fst (getRepoFileList this sp w) = Inr (JList []))
   \<and> (getAuthProvider this = Inr auth \<longrightarrow>
        failing (respond w (json_request auth (repoURL this))) \<longrightarrow>
        fst (getRepoLanguageList this w) = Inr [])
   \<and> (getAuthProvider this = Inl e \<longrightarrow>
        fst (getRepoBranchList this w) = Inr [] \<and>
        fst (getRepoFileList this sp w) = Inr (JList []) \<and>
        fst (getRepoLanguageList this w) = Inr [])
   \<and> (fst (fetchJson this (branchesURL this) w) = Inl e \<longrightarrow>
        fst (getRepoBranchList this w) = Inr [])
   \<and> (fst (fetchJson this (branchesURL this) w) = Inr data \<longrightarrow>
        (\<forall>kvs xs. data = JObject kvs \<longrightarrow> map_of kvs ''values''
           \<noteq> Some (JArray xs)) \<longrightarrow>
        fst (getRepoBranchList this w) = Inr [])
   \<and> (fst (fetchJson this (branchesURL this) w) = Inr (JObject kvs) \<longrightarrow>
        map_of kvs ''values''
           = Some (JArray xs) \<longrightarrow> JNull \<in> set xs \<longrightarrow>
        fst (getRepoBranchList this w) = Inr [])
   \<and> (fst (fetchJson this (branchesURL this) w) = Inr (JObject kvs) \<longrightarrow>
        map_of kvs ''values''
           = Some (JArray xs) \<longrightarrow> JNull \<notin> set xs \<longrightarrow>
        fst (getRepoBranchList this w) = Inr (map (read_prop ''name'') xs))
   \<and> (fst (fetchJson this (op_url this (GetRepoFileList sp)) w) = Inl e \<longrightarrow>
        fst (getRepoFileList this sp w) = Inr (JList []))
   \<and> (fst (fetchJson this (op_url this (GetRepoFileList sp)) w) = Inr JNull \<longrightarrow>
        fst (getRepoFileList this sp w) = Inr (JList []))
   \<and> (isServer this \<longrightarrow>
        fst (fetchJson this (op_url this (GetRepoFileList sp)) w) = Inr data \<longrightarrow>
        data \<noteq> JNull \<longrightarrow>
        fst (getRepoFileList this sp w) = Inr (read_prop ''values'' data))
   \<and> (\<not> isServer this \<longrightarrow>
        fst (fetchJson this (op_url this (GetRepoFileList sp)) w) = Inr data \<longrightarrow>
        (\<forall>kvs xs. data = JObject kvs \<longrightarrow> map_of kvs ''values''
           \<noteq> Some (JArray xs)) \<longrightarrow>
        fst (getRepoFileList this sp w) = Inr (JList []))
   \<and> (\<not> isServer this \<longrightarrow>
        fst (fetchJson this (op_url this (GetRepoFileList sp)) w) = Inr (JObject kvs) \<longrightarrow>
        map_of kvs ''values''
           = Some (JArray xs) \<longrightarrow> JNull \<in> set xs \<longrightarrow>
        fst (getRepoFileList this sp w) = Inr (JList []))
   \<and> (\<not> isServer this \<longrightarrow>
        fst (fetchJson this (op_url this (GetRepoFileList sp)) w) = Inr (JObject kvs) \<longrightarrow>
        map_of kvs ''values''
           = Some (JArray xs) \<longrightarrow> JNull \<notin> set xs \<longrightarrow>
        fst (getRepoFileList this sp w) = Inr (JList (map (read_prop ''path'') xs)))
   \<and> (fst (fetchJson this (repoURL this) w) = Inl e \<longrightarrow>
        fst (getRepoLanguageList this w) = Inr [])
   \<and> (fst (fetchJson this (repoURL this) w) = Inr JNull \<longrightarrow>
        fst (getRepoLanguageList this w) = Inr [])
   \<and> (fst (fetchJson this (repoURL this) w) = Inr data \<longrightarrow> data \<noteq> JNull \<longrightarrow>
        fst (getRepoLanguageList this w) = Inr [read_prop ''language'' data])"
proof -
  let ?B = "fst (fetchJson this (branchesURL this) w)"
  let ?F = "fst (fetchJson this (op_url this (GetRepoFileList sp)) w)"
  let ?L = "fst (fetchJson this (repoURL this) w)"
  have fails: "\<exists>e. fst (fetchJson this u w) = Inl e"
    if "getAuthProvider this = Inr auth" "failing (respond w (json_request auth u))" for u
    using fetchJson_fails_iff[OF that(1), of u w] that(2)
    by (cases "fst (fetchJson this u w)") simp_all
  have t1: "\<exists>branches. fst (getRepoBranchList this w) = Inr branches"
    and t2: "\<exists>files. fst (getRepoFileList this sp w) = Inr files"
    and t3: "\<exists>languages. fst (getRepoLanguageList this w) = Inr languages"
    by (simp_all add: getRepoBranchList_fst getRepoFileList_fst getRepoLanguageList_fst
        del: op_url.simps)
  have r1: "getAuthProvider this = Inr auth \<longrightarrow>
        failing (respond w (json_request auth (branchesURL this))) \<longrightarrow>
        fst (getRepoBranchList this w) = Inr []"
    using fails[of "branchesURL this"] by (auto simp add: getRepoBranchList_fst)
  have r2: "getAuthProvider this = Inr auth \<longrightarrow>
        failing (respond w (json_request auth (op_url this (GetRepoFileList sp)))) \<longrightarrow>
        fst (getRepoFileList this sp w) = Inr (JList [])"
    using fails[of "op_url this (GetRepoFileList sp)"]
    by (auto simp add: getRepoFileList_fst simp del: op_url.simps)
  have r3: "getAuthProvider this = Inr auth \<longrightarrow>
        failing (respond w (json_request auth (repoURL this))) \<longrightarrow>
        fst (getRepoLanguageList this w) = Inr []"
    using fails[of "repoURL this"] by (auto simp add: getRepoLanguageList_fst)
  have r4: "getAuthProvider this = Inl e \<longrightarrow>
        fst (getRepoBranchList this w) = Inr [] \<and>
        fst (getRepoFileList this sp w) = Inr (JList []) \<and>
        fst (getRepoLanguageList this w) = Inr []"
    by (simp add: getRepoBranchList_fst getRepoFileList_fst getRepoLanguageList_fst
        fetchJson_auth_throws del: op_url.simps)
  have b1: "?B = Inl e \<longrightarrow> fst (getRepoBranchList this w) = Inr []"
    by (simp add: getRepoBranchList_fst)
  have b2: "?B = Inr data \<longrightarrow>
        (\<forall>kvs xs. data = JObject kvs \<longrightarrow> map_of kvs ''values''
           \<noteq> Some (JArray xs)) \<longrightarrow>
        fst (getRepoBranchList this w) = Inr []"
  proof (intro impI)
    assume d: "?B = Inr data"
      and n: "\<forall>kvs xs. data = JObject kvs \<longrightarrow> map_of kvs ''values''
         \<noteq> Some (JArray xs)"
    from values_not_array[OF n, of "\<lambda>b. js_get b ''name''"]
    show "fst (getRepoBranchList this w) = Inr []"
      by (auto simp add: getRepoBranchList_fst d)
  qed
  have b3: "?B = Inr (JObject kvs) \<longrightarrow>
        map_of kvs ''values''
           = Some (JArray xs) \<longrightarrow> JNull \<in> set xs \<longrightarrow>
        fst (getRepoBranchList this w) = Inr []"
    using map_thrown_null[of xs "''name''"]
    by (auto simp add: getRepoBranchList_fst call_map_array)
  have b4: "?B = Inr (JObject kvs) \<longrightarrow>
        map_of kvs ''values''
           = Some (JArray xs) \<longrightarrow> JNull \<notin> set xs \<longrightarrow>
        fst (getRepoBranchList this w) = Inr (map (read_prop ''name'') xs)"
    by (simp add: getRepoBranchList_fst call_map_array map_thrown_reads)
  have f1: "?F = Inl e \<longrightarrow> fst (getRepoFileList this sp w) = Inr (JList [])"
    and f2: "?F = Inr JNull \<longrightarrow> fst (getRepoFileList this sp w) = Inr (JList [])"
    by (simp_all add: getRepoFileList_fst del: op_url.simps)
  have f3: "isServer this \<longrightarrow> ?F = Inr data \<longrightarrow> data \<noteq> JNull \<longrightarrow>
        fst (getRepoFileList this sp w) = Inr (read_prop ''values'' data)"
    by (simp add: getRepoFileList_fst read_prop_get_prop del: op_url.simps)
  have f4: "\<not> isServer this \<longrightarrow> ?F = Inr data \<longrightarrow>
        (\<forall>kvs xs. data = JObject kvs \<longrightarrow> map_of kvs ''values''
           \<noteq> Some (JArray xs)) \<longrightarrow>
        fst (getRepoFileList this sp w) = Inr (JList [])"
  proof (intro impI)
    assume s: "\<not> isServer this" and d: "?F = Inr data"
      and n: "\<forall>kvs xs. data = JObject kvs \<longrightarrow> map_of kvs ''values''
         \<noteq> Some (JArray xs)"
    from values_not_array[OF n, of "\<lambda>f. js_get f ''path''"]
    show "fst (getRepoFileList this sp w) = Inr (JList [])"
      by (auto simp add: getRepoFileList_fst d s simp del: op_url.simps)
  qed
  have f5: "\<not> isServer this \<longrightarrow> ?F = Inr (JObject kvs) \<longrightarrow>
        map_of kvs ''values''
           = Some (JArray xs) \<longrightarrow> JNull \<in> set xs \<longrightarrow>
        fst (getRepoFileList this sp w) = Inr (JList [])"
    using map_thrown_null[of xs "''path''"]
    by (auto simp add: getRepoFileList_fst call_map_array nullish_def simp del: op_url.simps)
  have f6: "\<not> isServer this \<longrightarrow> ?F = Inr (JObject kvs) \<longrightarrow>
        map_of kvs ''values''
           = Some (JArray xs) \<longrightarrow> JNull \<notin> set xs \<longrightarrow>
        fst (getRepoFileList this sp w) = Inr (JList (map (read_prop ''path'') xs))"
    by (simp add: getRepoFileList_fst call_map_array map_thrown_reads nullish_def
        del: op_url.simps)
  have l1: "?L = Inl e \<longrightarrow> fst (getRepoLanguageList this w) = Inr []"
    and l2: "?L = Inr JNull \<longrightarrow> fst (getRepoLanguageList this w) = Inr []"
    and l3: "?L = Inr data \<longrightarrow> data \<noteq> JNull \<longrightarrow>
        fst (getRepoLanguageList this w) = Inr [read_prop ''language'' data]"
    by (simp_all add: getRepoLanguageList_fst read_prop_get_prop)
  show ?thesis
    by (intro conjI t1 t2 t3 r1 r2 r3 r4 b1 b2 b3 b4 f1 f2 f3 f4 f5 f6 l1 l2 l3)
qed

theorem list_operations_degrade_witness:
  "getAuthProvider cloud_service = Inr None
   \<and> failing (Some (error_response 500))
   \<and> fst (getRepoBranchList cloud_service
         (answering ''https://api.bitbucket.org/2.0/repositories/org/repo/refs/branches''
            (error_response 500))) = Inr []
   \<and> failing None
   \<and> fst (getRepoFileList cloud_service None
         (answering ''https://elsewhere.example.com/'' (error_response 500))) = Inr (JList [])
   \<and> failing (Some malformed_response)
   \<and> fst (getRepoLanguageList cloud_service
         (answering ''https://api.bitbucket.org/2.0/repositories/org/repo''
            malformed_response)) = Inr []
   \<and> getAuthProvider (new_BitbucketService example_parser no_secret_source) = Inl (Thrown_Error TypeError)
   \<and> fst (getRepoBranchList (new_BitbucketService example_parser no_secret_source)
         (answering ''https://api.bitbucket.org/2.0/repositories/org/repo/refs/branches''
            unnamed_branches)) = Inr []
   \<and> fst (getRepoBranchList cloud_service
         (answering ''https://api.bitbucket.org/2.0/repositories/org/repo/refs/branches''
            (error_response 404))) = Inr []
   \<and> fst (getRepoBranchList cloud_service
         (answering ''https://api.bitbucket.org/2.0/repositories/org/repo/refs/branches'' (json_response ''null''
            (JNull)))) = Inr []
   \<and> fst (getRepoBranchList cloud_service
         (answering ''https://api.bitbucket.org/2.0/repositories/org/repo/refs/branches'' (json_response ''{}''
            (JObject [])))) = Inr []
   \<and> fst (getRepoBranchList cloud_service
         (answering ''https://api.bitbucket.org/2.0/repositories/org/repo/refs/branches''
            null_entry_listing)) = Inr []
   \<and> fst (getRepoBranchList cloud_service
         (answering ''https://api.bitbucket.org/2.0/repositories/org/repo/refs/branches''
            main_branch_listing)) = Inr [JVal (JString ''main'')]
   \<and> fst (getRepoFileList cloud_service None
         (answering ''https://api.bitbucket.org/2.0/repositories/org/repo/src/main/?pagelen=50''
            (error_response 404))) = Inr (JList [])
   \<and> fst (getRepoFileList cloud_service None
         (answering ''https://api.bitbucket.org/2.0/repositories/org/repo/src/main/?pagelen=50'' (json_response ''null''
            (JNull)))) = Inr (JList [])
   \<and> isServer server_service
   \<and> fst (getRepoFileList server_service None
         (answering ''https://git.example.com/rest/api/1.0/projects/org/repos/repo/files/?limit=50&at=HEAD'' (json_response ''{}''
            (JObject [])))) = Inr JUndefined
   \<and> \<not> isServer cloud_service
   \<and> fst (getRepoFileList cloud_service None
         (answering ''https://api.bitbucket.org/2.0/repositories/org/repo/src/main/?pagelen=50'' (json_response ''{}''
            (JObject [])))) = Inr (JList [])
   \<and> fst (getRepoFileList cloud_service None
         (answering ''https://api.bitbucket.org/2.0/repositories/org/repo/src/main/?pagelen=50''
            null_entry_listing)) = Inr (JList [])
   \<and> fst (getRepoFileList cloud_service None
         (answering ''https://api.bitbucket.org/2.0/repositories/org/repo/src/main/?pagelen=50''
            dockerfile_listing)) = Inr (JList [JVal (JString ''Dockerfile'')])
   \<and> fst (getRepoLanguageList cloud_service
         (answering ''https://api.bitbucket.org/2.0/repositories/org/repo''
            (error_response 404))) = Inr []
   \<and> fst (getRepoLanguageList cloud_service
         (answering ''https://api.bitbucket.org/2.0/repositories/org/repo'' (json_response ''null''
            (JNull)))) = Inr []
   \<and> fst (getRepoLanguageList cloud_service
         (answering ''https://api.bitbucket.org/2.0/repositories/org/repo''
            java_repository)) = Inr [JVal (JString ''java'')]"
proof -
  have auth: "getAuthProvider cloud_service = Inr None"
    by (rule getAuthProvider_cloud_service)
  have cj: "fst (fetchJson cloud_service u (answering u (json_response t j))) = Inr j" for u t j
    by (rule fetchJson_cloud_json)
  have nl: "fst (fetchJson cloud_service u
        (answering u null_entry_listing)) = Inr (JObject [(''values'', JArray [JNull])])" for u
    unfolding null_entry_listing_def by (rule fetchJson_cloud_json)
  have mb: "fst (fetchJson cloud_service u
        (answering u main_branch_listing)) = Inr (JObject [(''values'', JArray [JObject [(''name'', JString ''main'')]])])" for u
    unfolding main_branch_listing_def by (rule fetchJson_cloud_json)
  have dl: "fst (fetchJson cloud_service u
        (answering u dockerfile_listing)) = Inr (JObject [(''values'', JArray [JObject [(''path'', JString ''Dockerfile'')]])])" for u
    unfolding dockerfile_listing_def by (rule fetchJson_cloud_json)
  have jv: "fst (fetchJson cloud_service u
        (answering u java_repository)) = Inr (JObject [(''language'', JString ''java'')])" for u
    unfolding java_repository_def by (rule fetchJson_cloud_json)
  have e404: "fst (fetchJson cloud_service u
        (answering u (error_response 404))) = Inl (Thrown_Response (error_response 404))" for u
    by (rule fetchJson_cloud_error) (simp add: ok_fixtures)
  have f500: "failing (Some (error_response 500))"
    by (simp add: failing_def ok_fixtures)
  have r1: "fst (getRepoBranchList cloud_service
        (answering ''https://api.bitbucket.org/2.0/repositories/org/repo/refs/branches''
           (error_response 500))) = Inr []"
    using list_operations_degrade[where this = "cloud_service" and w = "answering ''https://api.bitbucket.org/2.0/repositories/org/repo/refs/branches''
       (error_response 500)" and auth = "None", THEN conjunct2, THEN conjunct2, THEN conjunct2,
        THEN conjunct1, rule_format, OF auth] f500
    by (simp add: branchesURL_cloud_service answering_def json_request_def)
  have fnone: "failing None"
    by (simp add: failing_def)
  have r2: "fst (getRepoFileList cloud_service None
        (answering ''https://elsewhere.example.com/'' (error_response 500))) = Inr (JList [])"
    using list_operations_degrade[where this = "cloud_service" and w = "answering ''https://elsewhere.example.com/''
       (error_response 500)" and sp = "None" and auth = "None", THEN conjunct2, THEN conjunct2, THEN conjunct2,
        THEN conjunct2, THEN conjunct1, rule_format, OF auth] fnone
    by (simp add: files_url_cloud_service answering_def json_request_def del: op_url.simps)
  have fmal: "failing (Some malformed_response)"
    by (simp add: failing_def malformed_response_def ok_def)
  have r3: "fst (getRepoLanguageList cloud_service
        (answering ''https://api.bitbucket.org/2.0/repositories/org/repo''
           malformed_response)) = Inr []"
    using list_operations_degrade[where this = "cloud_service" and w = "answering ''https://api.bitbucket.org/2.0/repositories/org/repo''
       malformed_response" and auth = "None", THEN conjunct2, THEN conjunct2, THEN conjunct2,
        THEN conjunct2, THEN conjunct2, THEN conjunct1, rule_format,
        OF auth] fmal
    by (simp add: repoURL_cloud_service answering_def json_request_def)
  have nosec: "getAuthProvider (new_BitbucketService example_parser no_secret_source) = Inl (Thrown_Error TypeError)"
    by (simp add: getAuthProvider_def new_BitbucketService_def no_secret_source_def
        cloud_source_def Let_def)
  have r4: "fst (getRepoBranchList (new_BitbucketService example_parser no_secret_source)
        (answering ''https://api.bitbucket.org/2.0/repositories/org/repo/refs/branches''
           unnamed_branches)) = Inr []"
    using list_operations_degrade[where this = "new_BitbucketService example_parser no_secret_source" and w = "answering ''https://api.bitbucket.org/2.0/repositories/org/repo/refs/branches''
       unnamed_branches" and e = "Thrown_Error TypeError", THEN conjunct2, THEN conjunct2, THEN conjunct2,
        THEN conjunct2, THEN conjunct2, THEN conjunct2, THEN conjunct1,
        rule_format, OF nosec, THEN conjunct1] .
  have b1: "fst (getRepoBranchList cloud_service
        (answering ''https://api.bitbucket.org/2.0/repositories/org/repo/refs/branches''
           (error_response 404))) = Inr []"
    using list_operations_degrade[where this = "cloud_service" and w = "answering ''https://api.bitbucket.org/2.0/repositories/org/repo/refs/branches''
       (error_response 404)" and e = "Thrown_Response (error_response 404)", THEN conjunct2, THEN conjunct2, THEN conjunct2,
        THEN conjunct2, THEN conjunct2, THEN conjunct2, THEN conjunct2,
        THEN conjunct1, rule_format, unfolded branchesURL_cloud_service, OF e404]
    .
  have b2null: "fst (getRepoBranchList cloud_service
        (answering ''https://api.bitbucket.org/2.0/repositories/org/repo/refs/branches'' (json_response ''null''
           (JNull)))) = Inr []"
    using list_operations_degrade[where this = "cloud_service" and w = "answering ''https://api.bitbucket.org/2.0/repositories/org/repo/refs/branches'' (json_response ''null''
       (JNull))" and data = "JNull", THEN conjunct2, THEN conjunct2, THEN conjunct2,
        THEN conjunct2, THEN conjunct2, THEN conjunct2, THEN conjunct2,
        THEN conjunct2, THEN conjunct1, rule_format, unfolded branchesURL_cloud_service,
        OF cj]
    by simp
  have b2absent: "fst (getRepoBranchList cloud_service
        (answering ''https://api.bitbucket.org/2.0/repositories/org/repo/refs/branches'' (json_response ''{}''
           (JObject [])))) = Inr []"
    using list_operations_degrade[where this = "cloud_service" and w = "answering ''https://api.bitbucket.org/2.0/repositories/org/repo/refs/branches'' (json_response ''{}''
       (JObject []))" and data = "JObject []", THEN conjunct2, THEN conjunct2, THEN conjunct2,
        THEN conjunct2, THEN conjunct2, THEN conjunct2, THEN conjunct2,
        THEN conjunct2, THEN conjunct1, rule_format, unfolded branchesURL_cloud_service,
        OF cj]
    by simp
  have b3: "fst (getRepoBranchList cloud_service
        (answering ''https://api.bitbucket.org/2.0/repositories/org/repo/refs/branches''
           null_entry_listing)) = Inr []"
    using list_operations_degrade[where this = "cloud_service" and w = "answering ''https://api.bitbucket.org/2.0/repositories/org/repo/refs/branches''
       null_entry_listing" and kvs = "[(''values'', JArray [JNull])]" and xs = "[JNull]", THEN conjunct2, THEN conjunct2, THEN conjunct2,
        THEN conjunct2, THEN conjunct2, THEN conjunct2, THEN conjunct2,
        THEN conjunct2, THEN conjunct2, THEN conjunct1, rule_format,
        unfolded branchesURL_cloud_service, OF nl]
    by simp
  have b4: "fst (getRepoBranchList cloud_service
        (answering ''https://api.bitbucket.org/2.0/repositories/org/repo/refs/branches''
           main_branch_listing)) = Inr [JVal (JString ''main'')]"
    using list_operations_degrade[where this = "cloud_service" and w = "answering ''https://api.bitbucket.org/2.0/repositories/org/repo/refs/branches''
       main_branch_listing" and kvs = "[(''values'', JArray [JObject [(''name'', JString ''main'')]])]" and xs = "[JObject [(''name'', JString ''main'')]]", THEN conjunct2, THEN conjunct2, THEN conjunct2,
        THEN conjunct2, THEN conjunct2, THEN conjunct2, THEN conjunct2,
        THEN conjunct2, THEN conjunct2, THEN conjunct2, THEN conjunct1,
        rule_format, unfolded branchesURL_cloud_service, OF mb]
    by (simp add: read_prop_def)
  have f1: "fst (getRepoFileList cloud_service None
        (answering ''https://api.bitbucket.org/2.0/repositories/org/repo/src/main/?pagelen=50''
           (error_response 404))) = Inr (JList [])"
    using list_operations_degrade[where this = "cloud_service" and w = "answering ''https://api.bitbucket.org/2.0/repositories/org/repo/src/main/?pagelen=50''
       (error_response 404)" and sp = "None" and e = "Thrown_Response (error_response 404)", THEN conjunct2, THEN conjunct2, THEN conjunct2,
        THEN conjunct2, THEN conjunct2, THEN conjunct2, THEN conjunct2,
        THEN conjunct2, THEN conjunct2, THEN conjunct2, THEN conjunct2,
        THEN conjunct1, rule_format, unfolded files_url_cloud_service, OF e404]
    .
  have f2: "fst (getRepoFileList cloud_service None
        (answering ''https://api.bitbucket.org/2.0/repositories/org/repo/src/main/?pagelen=50'' (json_response ''null''
           (JNull)))) = Inr (JList [])"
    using list_operations_degrade[where this = "cloud_service" and w = "answering ''https://api.bitbucket.org/2.0/repositories/org/repo/src/main/?pagelen=50'' (json_response ''null''
       (JNull))" and sp = "None", THEN conjunct2, THEN conjunct2, THEN conjunct2,
        THEN conjunct2, THEN conjunct2, THEN conjunct2, THEN conjunct2,
        THEN conjunct2, THEN conjunct2, THEN conjunct2, THEN conjunct2,
        THEN conjunct2, THEN conjunct1, rule_format, unfolded files_url_cloud_service,
        OF cj]
    .
  have srv: "isServer server_service"
    by (simp add: server_service_simps)
  have f3: "fst (getRepoFileList server_service None
        (answering ''https://git.example.com/rest/api/1.0/projects/org/repos/repo/files/?limit=50&at=HEAD'' (json_response ''{}''
           (JObject [])))) = Inr JUndefined"
    using list_operations_degrade[where this = "server_service" and w = "answering ''https://git.example.com/rest/api/1.0/projects/org/repos/repo/files/?limit=50&at=HEAD'' (json_response ''{}''
       (JObject []))" and sp = "None" and data = "JObject []", THEN conjunct2, THEN conjunct2, THEN conjunct2,
        THEN conjunct2, THEN conjunct2, THEN conjunct2, THEN conjunct2,
        THEN conjunct2, THEN conjunct2, THEN conjunct2, THEN conjunct2,
        THEN conjunct2, THEN conjunct2, THEN conjunct1, rule_format,
        unfolded files_url_server_service, OF srv fetchJson_server_json]
    by (simp add: read_prop_def)
  have cld: "\<not> isServer cloud_service"
    by (simp add: cloud_service_simps)
  have f4: "fst (getRepoFileList cloud_service None
        (answering ''https://api.bitbucket.org/2.0/repositories/org/repo/src/main/?pagelen=50'' (json_response ''{}''
           (JObject [])))) = Inr (JList [])"
    using list_operations_degrade[where this = "cloud_service" and w = "answering ''https://api.bitbucket.org/2.0/repositories/org/repo/src/main/?pagelen=50'' (json_response ''{}''
       (JObject []))" and sp = "None" and data = "JObject []", THEN conjunct2, THEN conjunct2, THEN conjunct2,
        THEN conjunct2, THEN conjunct2, THEN conjunct2, THEN conjunct2,
        THEN conjunct2, THEN conjunct2, THEN conjunct2, THEN conjunct2,
        THEN conjunct2, THEN conjunct2, THEN conjunct2, THEN conjunct1,
        rule_format, unfolded files_url_cloud_service, OF cld cj]
    by simp
  have f5: "fst (getRepoFileList cloud_service None
        (answering ''https://api.bitbucket.org/2.0/repositories/org/repo/src/main/?pagelen=50''
           null_entry_listing)) = Inr (JList [])"
    using list_operations_degrade[where this = "cloud_service" and w = "answering ''https://api.bitbucket.org/2.0/repositories/org/repo/src/main/?pagelen=50''
       null_entry_listing" and sp = "None" and kvs = "[(''values'', JArray [JNull])]" and xs = "[JNull]", THEN conjunct2, THEN conjunct2, THEN conjunct2,
        THEN conjunct2, THEN conjunct2, THEN conjunct2, THEN conjunct2,
        THEN conjunct2, THEN conjunct2, THEN conjunct2, THEN conjunct2,
        THEN conjunct2, THEN conjunct2, THEN conjunct2, THEN conjunct2,
        THEN conjunct1, rule_format, unfolded files_url_cloud_service, OF cld nl]
    by simp
  have f6: "fst (getRepoFileList cloud_service None
        (answering ''https://api.bitbucket.org/2.0/repositories/org/repo/src/main/?pagelen=50''
           dockerfile_listing)) = Inr (JList [JVal (JString ''Dockerfile'')])"
    using list_operations_degrade[where this = "cloud_service" and w = "answering ''https://api.bitbucket.org/2.0/repositories/org/repo/src/main/?pagelen=50''
       dockerfile_listing" and sp = "None" and kvs = "[(''values'', JArray [JObject [(''path'', JString ''Dockerfile'')]])]" and xs = "[JObject [(''path'', JString ''Dockerfile'')]]", THEN conjunct2, THEN conjunct2, THEN conjunct2,
        THEN conjunct2, THEN conjunct2, THEN conjunct2, THEN conjunct2,
        THEN conjunct2, THEN conjunct2, THEN conjunct2, THEN conjunct2,
        THEN conjunct2, THEN conjunct2, THEN conjunct2, THEN conjunct2,
        THEN conjunct2, THEN conjunct1, rule_format, unfolded files_url_cloud_service,
        OF cld dl]
    by (simp add: read_prop_def)
  have l1: "fst (getRepoLanguageList cloud_service
        (answering ''https://api.bitbucket.org/2.0/repositories/org/repo''
           (error_response 404))) = Inr []"
    using list_operations_degrade[where this = "cloud_service" and w = "answering ''https://api.bitbucket.org/2.0/repositories/org/repo''
       (error_response 404)" and e = "Thrown_Response (error_response 404)", THEN conjunct2, THEN conjunct2, THEN conjunct2,
        THEN conjunct2, THEN conjunct2, THEN conjunct2, THEN conjunct2,
        THEN conjunct2, THEN conjunct2, THEN conjunct2, THEN conjunct2,
        THEN conjunct2, THEN conjunct2, THEN conjunct2, THEN conjunct2,
        THEN conjunct2, THEN conjunct2, THEN conjunct1, rule_format,
        unfolded repoURL_cloud_service, OF e404]
    .
  have l2: "fst (getRepoLanguageList cloud_service
        (answering ''https://api.bitbucket.org/2.0/repositories/org/repo'' (json_response ''null''
           (JNull)))) = Inr []"
    using list_operations_degrade[where this = "cloud_service" and w = "answering ''https://api.bitbucket.org/2.0/repositories/org/repo'' (json_response ''null''
       (JNull))", THEN conjunct2, THEN conjunct2, THEN conjunct2,
        THEN conjunct2, THEN conjunct2, THEN conjunct2, THEN conjunct2,
        THEN conjunct2, THEN conjunct2, THEN conjunct2, THEN conjunct2,
        THEN conjunct2, THEN conjunct2, THEN conjunct2, THEN conjunct2,
        THEN conjunct2, THEN conjunct2, THEN conjunct2, THEN conjunct1,
        rule_format, unfolded repoURL_cloud_service, OF cj]
    .
  have l3: "fst (getRepoLanguageList cloud_service
        (answering ''https://api.bitbucket.org/2.0/repositories/org/repo''
           java_repository)) = Inr [JVal (JString ''java'')]"
    using list_operations_degrade[where this = "cloud_service" and w = "answering ''https://api.bitbucket.org/2.0/repositories/org/repo''
       java_repository" and data = "JObject [(''language'', JString ''java'')]", THEN conjunct2, THEN conjunct2, THEN conjunct2,
        THEN conjunct2, THEN conjunct2, THEN conjunct2, THEN conjunct2,
        THEN conjunct2, THEN conjunct2, THEN conjunct2, THEN conjunct2,
        THEN conjunct2, THEN conjunct2, THEN conjunct2, THEN conjunct2,
        THEN conjunct2, THEN conjunct2, THEN conjunct2, THEN conjunct2,
        rule_format, unfolded repoURL_cloud_service, OF jv]
    by (simp add: read_prop_def)
  show ?thesis
    by (intro conjI auth f500 r1 fnone r2 fmal r3 nosec r4 b1 b2null b2absent b3 b4 f1 f2 srv f3 cld f4 f5 f6 l1 l2 l3)
qed

end
